theory Spec2Isabelle
  imports Complex_Main "HOL-Library.Monad_Syntax"
begin

section \<open>Data model\<close>

subsection \<open>Configuration\<close>

text \<open>
  Both source files start with an import of the module \<^verbatim>\<open>settings\<close>, which is not part of
  the sources at hand. The constants they read from it (\<^verbatim>\<open>WINDOW_WIDTH\<close>,
  \<^verbatim>\<open>WINDOW_HEIGHT\<close>, and the dictionaries \<^verbatim>\<open>SIZE\<close>, \<^verbatim>\<open>POS\<close> and \<^verbatim>\<open>SPEED\<close> at the keys
  the code uses) are therefore parameters of the model, collected in one record.
  The window size is a pair of integers (it is handed to \<^verbatim>\<open>pygame.display.set_mode\<close>);
  positions and speeds may be fractional.
\<close>

record settings =
  WINDOW_WIDTH :: int
  WINDOW_HEIGHT :: int
  SIZE_paddle :: "int \<times> int"
  SIZE_ball :: "int \<times> int"
  POS_player :: "real \<times> real"
  POS_opponent :: "real \<times> real"
  SPEED_player :: real
  SPEED_opponent :: real
  SPEED_ball :: real

subsection \<open>Rectangles\<close>

text \<open>
  A \<^verbatim>\<open>pygame.Rect\<close> stores four integers. The edges and the centre are computed from
  them, and assigning to an edge or to the centre moves the rectangle without resizing
  it. A Python float assigned to a coordinate is rounded to the nearest integer, a half
  away from zero. Python floats are modelled as real numbers.
\<close>

record Rect =
  rect_x :: int
  rect_y :: int
  rect_w :: int
  rect_h :: int

definition int_of_float :: "real \<Rightarrow> int" where
  "int_of_float v = (if 0 \<le> v then \<lfloor>v + 1 / 2\<rfloor> else \<lceil>v - 1 / 2\<rceil>)"

definition half :: "int \<Rightarrow> int" where
  \<comment> \<open>the integer division by two of C, which rounds towards zero\<close>
  "half n = (if 0 \<le> n then n div 2 else - ((- n) div 2))"

definition rect_left :: "Rect \<Rightarrow> int" where
  "rect_left r = rect_x r"

definition rect_top :: "Rect \<Rightarrow> int" where
  "rect_top r = rect_y r"

definition rect_right :: "Rect \<Rightarrow> int" where
  "rect_right r = rect_x r + rect_w r"

definition rect_bottom :: "Rect \<Rightarrow> int" where
  "rect_bottom r = rect_y r + rect_h r"

definition rect_centerx :: "Rect \<Rightarrow> int" where
  "rect_centerx r = rect_x r + half (rect_w r)"

definition rect_centery :: "Rect \<Rightarrow> int" where
  "rect_centery r = rect_y r + half (rect_h r)"

definition set_left :: "Rect \<Rightarrow> int \<Rightarrow> Rect" where
  "set_left r v = r\<lparr>rect_x := v\<rparr>"

definition set_top :: "Rect \<Rightarrow> int \<Rightarrow> Rect" where
  "set_top r v = r\<lparr>rect_y := v\<rparr>"

definition set_right :: "Rect \<Rightarrow> int \<Rightarrow> Rect" where
  "set_right r v = r\<lparr>rect_x := v - rect_w r\<rparr>"

definition set_bottom :: "Rect \<Rightarrow> int \<Rightarrow> Rect" where
  "set_bottom r v = r\<lparr>rect_y := v - rect_h r\<rparr>"

definition set_centery :: "Rect \<Rightarrow> int \<Rightarrow> Rect" where
  "set_centery r v = r\<lparr>rect_y := v - half (rect_h r)\<rparr>"

definition set_center :: "Rect \<Rightarrow> real \<times> real \<Rightarrow> Rect" where
  "set_center r c =
     r\<lparr>rect_x := int_of_float (fst c) - half (rect_w r),
       rect_y := int_of_float (snd c) - half (rect_h r)\<rparr>"

definition get_rect :: "int \<times> int \<Rightarrow> real \<times> real \<Rightarrow> Rect" where
  \<comment> \<open>\<^verbatim>\<open>surface.get_rect(center=c)\<close> for a surface of the given size\<close>
  "get_rect sz c =
     set_center \<lparr>rect_x = 0, rect_y = 0, rect_w = fst sz, rect_h = snd sz\<rparr> c"

definition colliderect :: "Rect \<Rightarrow> Rect \<Rightarrow> bool" where
  \<comment> \<open>rectangles of zero width or height collide with nothing; touching edges do not overlap\<close>
  "colliderect a b =
     (if rect_w a = 0 \<or> rect_h a = 0 \<or> rect_w b = 0 \<or> rect_h b = 0 then False
      else min (rect_x a) (rect_x a + rect_w a) < max (rect_x b) (rect_x b + rect_w b)
         \<and> min (rect_y a) (rect_y a + rect_h a) < max (rect_y b) (rect_y b + rect_h b)
         \<and> max (rect_x a) (rect_x a + rect_w a) > min (rect_x b) (rect_x b + rect_w b)
         \<and> max (rect_y a) (rect_y a + rect_h a) > min (rect_y b) (rect_y b + rect_h b))"

subsection \<open>Sprites\<close>

text \<open>
  Every sprite has a rectangle and the copy of it taken at the start of its last update.
  A paddle adds a direction in \<open>{-1, 0, 1}\<close> and a speed; the ball adds a direction
  vector, the speed modifier and the serve timer. Images and shadows are left out.
\<close>

record Sprite =
  rect :: Rect
  old_rect :: Rect

record Paddle = Sprite +
  direction :: int
  speed :: real

record Ball = Sprite +
  direction :: "real \<times> real"
  speed_modifier :: int
  start_time :: int
  duration :: int

subsection \<open>The game\<close>

text \<open>
  The score is a dictionary from side names to counters. The three sprites are the
  members of the sprite groups, in the order they are created: the player's paddle, the
  ball, the opponent's paddle.
\<close>

record Game =
  score :: "string \<rightharpoonup> int"
  in_challenge :: bool
  challenge_won :: bool
  show_retry_modal :: bool
  player :: Paddle
  ball :: Ball
  opponent :: Paddle

definition TARGET_PLAYER :: int where
  "TARGET_PLAYER = 26"

definition TARGET_OPPONENT :: int where
  "TARGET_OPPONENT = 7"

section \<open>Scoring\<close>

text \<open>
  \<^verbatim>\<open>Game.update_score\<close>. Reading a key the dictionary does not have raises
  \<^verbatim>\<open>KeyError\<close>; the model returns \<open>None\<close> then. The conditions are evaluated in the
  order of the source, with the short cuts of \<^verbatim>\<open>and\<close> and \<^verbatim>\<open>or\<close>.
\<close>

definition update_score :: "string \<Rightarrow> Game \<Rightarrow> Game option" where
  "update_score side g = do {
     let k = (if side = ''player'' then ''player'' else ''opponent'');
     v \<leftarrow> score g k;
     let g = g\<lparr>score := (score g)(k \<mapsto> v + 1)\<rparr>;
     if in_challenge g then do {
       p \<leftarrow> score g ''player'';
       won \<leftarrow> (if p = TARGET_PLAYER
               then do { q \<leftarrow> score g ''opponent''; Some (q = TARGET_OPPONENT) }
               else Some False);
       if won then Some (g\<lparr>challenge_won := True\<rparr>)
       else do {
         over \<leftarrow> (if p > TARGET_PLAYER then Some True
                  else do { q \<leftarrow> score g ''opponent''; Some (q > TARGET_OPPONENT) });
         Some (if over then g\<lparr>show_retry_modal := True\<rparr> else g)
       }
     } else Some g
   }"

section \<open>Paddles\<close>

text \<open>
  \<^verbatim>\<open>Paddle.move\<close>: the centre moves by \<open>direction * speed * dt\<close>, then the top edge and
  the bottom edge are clamped, in this order.
\<close>

definition Paddle_move :: "settings \<Rightarrow> real \<Rightarrow> Paddle \<Rightarrow> Paddle" where
  "Paddle_move cfg dt p =
     (let r1 = set_centery (rect p)
                 (int_of_float (real_of_int (rect_centery (rect p))
                                + real_of_int (Paddle.direction p) * speed p * dt));
          r2 = set_top r1 (if rect_top r1 < 0 then 0 else rect_top r1);
          r3 = set_bottom r2 (if rect_bottom r2 > WINDOW_HEIGHT cfg then WINDOW_HEIGHT cfg
                              else rect_bottom r2)
      in p\<lparr>rect := r3\<rparr>)"

text \<open>
  The two subclasses differ in \<^verbatim>\<open>get_direction\<close>: the player reads the arrow keys, the
  opponent compares its centre with the ball's.
\<close>

record keys =
  K_UP :: bool
  K_DOWN :: bool

definition Player_get_direction :: "keys \<Rightarrow> Paddle \<Rightarrow> Paddle" where
  "Player_get_direction ks p =
     p\<lparr>Paddle.direction := of_bool (K_DOWN ks) - of_bool (K_UP ks)\<rparr>"

definition Opponent_get_direction :: "Ball \<Rightarrow> Paddle \<Rightarrow> Paddle" where
  "Opponent_get_direction b p =
     p\<lparr>Paddle.direction := (if rect_centery (rect b) > rect_centery (rect p) then 1 else - 1)\<rparr>"

text \<open>\<^verbatim>\<open>Paddle.update\<close>, once for each subclass.\<close>

definition Player_update :: "settings \<Rightarrow> keys \<Rightarrow> real \<Rightarrow> Paddle \<Rightarrow> Paddle" where
  "Player_update cfg ks dt p =
     Paddle_move cfg dt (Player_get_direction ks (p\<lparr>old_rect := rect p\<rparr>))"

definition Opponent_update :: "settings \<Rightarrow> Ball \<Rightarrow> real \<Rightarrow> Paddle \<Rightarrow> Paddle" where
  "Opponent_update cfg b dt p =
     Paddle_move cfg dt (Opponent_get_direction b (p\<lparr>old_rect := rect p\<rparr>))"

text \<open>
  The constructors. The opponent's constructor moves the rectangle after the base
  constructor has copied it, so its first \<open>old_rect\<close> is still at the player's position.
\<close>

definition Player_init :: "settings \<Rightarrow> Paddle" where
  "Player_init cfg =
     \<lparr>rect = get_rect (SIZE_paddle cfg) (POS_player cfg),
      old_rect = get_rect (SIZE_paddle cfg) (POS_player cfg),
      Paddle.direction = 0, speed = SPEED_player cfg\<rparr>"

definition Opponent_init :: "settings \<Rightarrow> Paddle" where
  "Opponent_init cfg =
     \<lparr>rect = set_center (get_rect (SIZE_paddle cfg) (POS_player cfg)) (POS_opponent cfg),
      old_rect = get_rect (SIZE_paddle cfg) (POS_player cfg),
      Paddle.direction = 0, speed = SPEED_opponent cfg\<rparr>"

section \<open>The ball\<close>

text \<open>
  What a serve reads from outside: the index \<^verbatim>\<open>choice\<close> draws for the horizontal
  direction, the number in \<open>[0, 1)\<close> from which \<^verbatim>\<open>uniform\<close> computes its result, the
  index \<^verbatim>\<open>choice\<close> draws for the vertical sign, and the clock.
\<close>

record serve_env =
  randbelow_x :: nat
  random_y :: real
  randbelow_sign :: nat
  ticks :: int

definition choice :: "'a list \<Rightarrow> nat \<Rightarrow> 'a" where
  \<comment> \<open>\<^verbatim>\<open>seq[randbelow(len(seq))]\<close>; the index drawn is below the length\<close>
  "choice xs k = xs ! k"

definition uniform :: "real \<Rightarrow> real \<Rightarrow> real \<Rightarrow> real" where
  \<comment> \<open>\<^verbatim>\<open>a + (b - a) * random()\<close>\<close>
  "uniform a b r = a + (b - a) * r"

definition valid_env :: "serve_env \<Rightarrow> bool" where
  \<comment> \<open>the ranges of the library's draws\<close>
  "valid_env env =
     (randbelow_x env < 2 \<and> randbelow_sign env < 2 \<and> 0 \<le> random_y env \<and> random_y env < 1)"

definition Ball_init :: "settings \<Rightarrow> serve_env \<Rightarrow> Ball" where
  "Ball_init cfg env =
     \<lparr>rect = get_rect (SIZE_ball cfg)
               (real_of_int (WINDOW_WIDTH cfg) / 2, real_of_int (WINDOW_HEIGHT cfg) / 2),
      old_rect = get_rect (SIZE_ball cfg)
               (real_of_int (WINDOW_WIDTH cfg) / 2, real_of_int (WINDOW_HEIGHT cfg) / 2),
      direction = (real_of_int (choice [1, - 1] (randbelow_x env)),
                   uniform 0.7 0.8 (random_y env)
                   * real_of_int (choice [- 1, 1] (randbelow_sign env))),
      speed_modifier = 0,
      start_time = ticks env,
      duration = 1200\<rparr>"

definition Ball_reset :: "settings \<Rightarrow> serve_env \<Rightarrow> Ball \<Rightarrow> Ball" where
  "Ball_reset cfg env b =
     b\<lparr>rect := set_center (rect b)
                 (real_of_int (WINDOW_WIDTH cfg) / 2, real_of_int (WINDOW_HEIGHT cfg) / 2),
       direction := (real_of_int (choice [1, - 1] (randbelow_x env)),
                     uniform 0.7 0.8 (random_y env)
                     * real_of_int (choice [- 1, 1] (randbelow_sign env))),
       start_time := ticks env\<rparr>"

definition Ball_timer :: "int \<Rightarrow> Ball \<Rightarrow> Ball" where
  "Ball_timer now b =
     (if now - start_time b \<ge> duration b then b\<lparr>speed_modifier := 1\<rparr>
      else b\<lparr>speed_modifier := 0\<rparr>)"

text \<open>
  \<^verbatim>\<open>Ball.collision\<close>: \<open>collide\<close> is the body of the loop for one paddle, \<open>collision\<close> the
  loop over the paddles. In each branch the two tests are separate \<^verbatim>\<open>if\<close> statements,
  the second one reading the rectangle the first may have moved.
\<close>

definition collide :: "string \<Rightarrow> Paddle \<Rightarrow> Ball \<Rightarrow> Ball" where
  "collide dir sprite b =
     (if colliderect (rect sprite) (rect b) then
        (if dir = ''horizontal'' then
           (let b1 = (if rect_right (rect b) \<ge> rect_left (rect sprite)
                         \<and> rect_right (old_rect b) \<le> rect_left (old_rect sprite)
                      then b\<lparr>rect := set_right (rect b) (rect_left (rect sprite)),
                             direction := (fst (direction b) * - 1, snd (direction b))\<rparr>
                      else b)
            in (if rect_left (rect b1) \<le> rect_right (rect sprite)
                   \<and> rect_left (old_rect b1) \<ge> rect_right (old_rect sprite)
                then b1\<lparr>rect := set_left (rect b1) (rect_right (rect sprite)),
                        direction := (fst (direction b1) * - 1, snd (direction b1))\<rparr>
                else b1))
         else
           (let b1 = (if rect_bottom (rect b) \<ge> rect_top (rect sprite)
                         \<and> rect_bottom (old_rect b) \<le> rect_top (old_rect sprite)
                      then b\<lparr>rect := set_bottom (rect b) (rect_top (rect sprite)),
                             direction := (fst (direction b), snd (direction b) * - 1)\<rparr>
                      else b)
            in (if rect_top (rect b1) \<le> rect_bottom (rect sprite)
                   \<and> rect_top (old_rect b1) \<ge> rect_bottom (old_rect sprite)
                then b1\<lparr>rect := set_top (rect b1) (rect_bottom (rect sprite)),
                        direction := (fst (direction b1), snd (direction b1) * - 1)\<rparr>
                else b1)))
      else b)"

fun collision :: "string \<Rightarrow> Paddle list \<Rightarrow> Ball \<Rightarrow> Ball" where
  "collision dir [] b = b"
| "collision dir (sprite # sprites) b = collision dir sprites (collide dir sprite b)"

definition Ball_move :: "settings \<Rightarrow> Paddle list \<Rightarrow> real \<Rightarrow> Ball \<Rightarrow> Ball" where
  "Ball_move cfg paddle_sprites dt b =
     (let b1 = b\<lparr>rect := (rect b)\<lparr>rect_x :=
                   int_of_float (real_of_int (rect_x (rect b))
                     + fst (direction b) * SPEED_ball cfg * dt * real_of_int (speed_modifier b))\<rparr>\<rparr>;
          b2 = collision ''horizontal'' paddle_sprites b1;
          b3 = b2\<lparr>rect := (rect b2)\<lparr>rect_y :=
                   int_of_float (real_of_int (rect_y (rect b2))
                     + snd (direction b2) * SPEED_ball cfg * dt * real_of_int (speed_modifier b2))\<rparr>\<rparr>
      in collision ''vertical'' paddle_sprites b3)"

text \<open>
  \<^verbatim>\<open>Ball.wall_collision\<close>. The ball calls the game's \<^verbatim>\<open>update_score\<close> through the
  reference it was given, so the function works on the game that holds the ball.
  \<open>scoring_side\<close> is the argument of that call.
\<close>

definition scoring_side :: "settings \<Rightarrow> Ball \<Rightarrow> string" where
  "scoring_side cfg b =
     (if real_of_int (rect_x (rect b)) < real_of_int (WINDOW_WIDTH cfg) / 2
      then ''player'' else ''opponent'')"

definition bounce_walls :: "settings \<Rightarrow> Ball \<Rightarrow> Ball" where
  \<comment> \<open>the first two statements of \<^verbatim>\<open>wall_collision\<close>\<close>
  "bounce_walls cfg b =
     (let b1 = (if rect_top (rect b) \<le> 0
                then b\<lparr>rect := set_top (rect b) 0,
                       direction := (fst (direction b), snd (direction b) * - 1)\<rparr>
                else b)
      in (if rect_bottom (rect b1) \<ge> WINDOW_HEIGHT cfg
          then b1\<lparr>rect := set_bottom (rect b1) (WINDOW_HEIGHT cfg),
                  direction := (fst (direction b1), snd (direction b1) * - 1)\<rparr>
          else b1))"

definition wall_collision :: "settings \<Rightarrow> serve_env \<Rightarrow> Game \<Rightarrow> Game option" where
  "wall_collision cfg env g =
     (let b = bounce_walls cfg (ball g)
      in if rect_right (rect b) \<ge> WINDOW_WIDTH cfg \<or> rect_left (rect b) \<le> 0
         then do {
           g' \<leftarrow> update_score (scoring_side cfg b) (g\<lparr>ball := b\<rparr>);
           Some (g'\<lparr>ball := Ball_reset cfg env (ball g')\<rparr>)
         }
         else Some (g\<lparr>ball := b\<rparr>))"

text \<open>
  \<^verbatim>\<open>Ball.update\<close>. The paddles the ball collides with are the members of the paddle
  group: the player's and the opponent's. \<open>now\<close> is the clock \<^verbatim>\<open>timer\<close> reads.
\<close>

definition Ball_update :: "settings \<Rightarrow> int \<Rightarrow> serve_env \<Rightarrow> real \<Rightarrow> Game \<Rightarrow> Game option" where
  "Ball_update cfg now env dt g =
     (let b0 = (ball g)\<lparr>old_rect := rect (ball g)\<rparr>;
          b1 = Ball_timer now b0;
          b2 = Ball_move cfg [player g, opponent g] dt b1
      in wall_collision cfg env (g\<lparr>ball := b2\<rparr>))"

section \<open>The game loop\<close>

text \<open>
  \<^verbatim>\<open>Game.__init__\<close>: the score comes from the score file when it can be read, the flags
  are off, and the sprites are created in the order player, ball, opponent.
\<close>

definition Game_init :: "settings \<Rightarrow> (string \<rightharpoonup> int) option \<Rightarrow> serve_env \<Rightarrow> Game" where
  "Game_init cfg loaded env =
     \<lparr>score = (case loaded of Some d \<Rightarrow> d
               | None \<Rightarrow> [''player'' \<mapsto> 0, ''opponent'' \<mapsto> 0]),
      in_challenge = False,
      challenge_won = False,
      show_retry_modal = False,
      player = Player_init cfg,
      ball = Ball_init cfg env,
      opponent = Opponent_init cfg\<rparr>"

text \<open>
  The loop that puts the paddles back, in \<^verbatim>\<open>challenge_menu\<close> and in
  \<^verbatim>\<open>reset_challenge_round\<close>: a paddle left of the middle goes to the opponent's
  position, any other to the player's. The second function tests the rectangle for truth
  first, and a rectangle is true when neither its width nor its height is zero.
\<close>

definition reposition :: "settings \<Rightarrow> Paddle \<Rightarrow> Paddle" where
  "reposition cfg s =
     (if rect_centerx (rect s) < WINDOW_WIDTH cfg div 2
      then s\<lparr>rect := set_center (rect s) (POS_opponent cfg)\<rparr>
      else s\<lparr>rect := set_center (rect s) (POS_player cfg)\<rparr>)"

definition reposition_checked :: "settings \<Rightarrow> Paddle \<Rightarrow> Paddle" where
  "reposition_checked cfg s =
     (if rect_w (rect s) \<noteq> 0 \<and> rect_h (rect s) \<noteq> 0 then reposition cfg s else s)"

text \<open>
  What \<^verbatim>\<open>challenge_menu\<close> does to the game once its popup is closed, and
  \<^verbatim>\<open>reset_challenge_round\<close>.
\<close>

definition challenge_menu :: "settings \<Rightarrow> serve_env \<Rightarrow> Game \<Rightarrow> Game" where
  "challenge_menu cfg env g =
     (let g1 = g\<lparr>score := [''player'' \<mapsto> 0, ''opponent'' \<mapsto> 0],
                 in_challenge := True, challenge_won := False\<rparr>;
          g2 = g1\<lparr>ball := Ball_reset cfg env (ball g1)\<rparr>;
          g3 = g2\<lparr>player := (player g2)\<lparr>rect := set_center (rect (player g2)) (POS_player cfg)\<rparr>\<rparr>
      in g3\<lparr>player := reposition cfg (player g3), opponent := reposition cfg (opponent g3)\<rparr>)"

definition reset_challenge_round :: "settings \<Rightarrow> serve_env \<Rightarrow> Game \<Rightarrow> Game" where
  "reset_challenge_round cfg env g =
     (let g1 = g\<lparr>score := [''player'' \<mapsto> 0, ''opponent'' \<mapsto> 0]\<rparr>;
          g2 = g1\<lparr>ball := Ball_reset cfg env (ball g1)\<rparr>;
          g3 = g2\<lparr>player := (player g2)\<lparr>rect := set_center (rect (player g2)) (POS_player cfg)\<rparr>\<rparr>;
          g4 = g3\<lparr>player := reposition_checked cfg (player g3),
                  opponent := reposition_checked cfg (opponent g3)\<rparr>
      in g4\<lparr>show_retry_modal := False\<rparr>)"

text \<open>
  Events, and what the user does when the loop sends them back to the menus. The start
  menu, the login and the challenge popup each wait for the user: either the window is
  closed in one of them (or the login fails) and the program ends, or the user gets
  through all three and \<^verbatim>\<open>challenge_menu\<close> restarts the challenge with a new serve.
\<close>

datatype key = K_ESCAPE | K_OTHER

datatype event = QUIT | KEYDOWN key | MOUSEBUTTONDOWN int | MOUSEBUTTONUP int | OTHER_EVENT

datatype menu_result = Menu_exit | Menu_play serve_env

datatype outcome = Running Game | Exited Game | Final Game

definition return_to_menus :: "settings \<Rightarrow> menu_result \<Rightarrow> Game \<Rightarrow> outcome" where
  "return_to_menus cfg m g =
     (case m of Menu_exit \<Rightarrow> Exited g
      | Menu_play env \<Rightarrow> Running (challenge_menu cfg env g))"

text \<open>
  The first event loop of a frame. Each event comes with what the user would do in the
  menus if that event sent them there.
\<close>

fun handle_events :: "settings \<Rightarrow> (event \<times> menu_result) list \<Rightarrow> Game \<Rightarrow> outcome" where
  "handle_events cfg [] g = Running g"
| "handle_events cfg ((e, m) # es) g =
     (if e = QUIT then Exited g
      else if e = KEYDOWN K_ESCAPE \<and> show_retry_modal g then
        (case return_to_menus cfg m (g\<lparr>show_retry_modal := False, in_challenge := False\<rparr>) of
           Running g' \<Rightarrow> handle_events cfg es g'
         | Exited g' \<Rightarrow> Exited g'
         | Final g' \<Rightarrow> Final g')
      else handle_events cfg es g)"

text \<open>
  The buttons of the retry modal, as \<^verbatim>\<open>draw_retry_modal\<close> places them, and the loop over
  the mouse events that arrived since the first loop. Each event comes with the mouse
  position read while it is handled, the serve a retry would start, and what the user
  would do in the menus.
\<close>

definition yes_rect :: "settings \<Rightarrow> Rect" where
  "yes_rect cfg =
     \<lparr>rect_x = (WINDOW_WIDTH cfg - (180 * 2 + 40)) div 2,
      rect_y = ((WINDOW_HEIGHT cfg - 240) div 2 - 20) + 240 - 64 - 20,
      rect_w = 180, rect_h = 64\<rparr>"

definition no_rect :: "settings \<Rightarrow> Rect" where
  "no_rect cfg =
     \<lparr>rect_x = (WINDOW_WIDTH cfg - (180 * 2 + 40)) div 2 + 180 + 40,
      rect_y = ((WINDOW_HEIGHT cfg - 240) div 2 - 20) + 240 - 64 - 20,
      rect_w = 180, rect_h = 64\<rparr>"

definition collidepoint :: "Rect \<Rightarrow> int \<times> int \<Rightarrow> bool" where
  "collidepoint r pt =
     (rect_x r \<le> fst pt \<and> fst pt < rect_x r + rect_w r
      \<and> rect_y r \<le> snd pt \<and> snd pt < rect_y r + rect_h r)"

record response =
  mouse_pos :: "int \<times> int"
  retry_env :: serve_env
  menu :: menu_result

fun handle_clicks :: "settings \<Rightarrow> (event \<times> response) list \<Rightarrow> Game \<Rightarrow> outcome" where
  "handle_clicks cfg [] g = Running g"
| "handle_clicks cfg ((e, r) # es) g =
     (if e = MOUSEBUTTONDOWN 1 then
        (if collidepoint (yes_rect cfg) (mouse_pos r)
         then handle_clicks cfg es (reset_challenge_round cfg (retry_env r) g)
         else if collidepoint (no_rect cfg) (mouse_pos r) then
           (case return_to_menus cfg (menu r)
                   (g\<lparr>show_retry_modal := False, in_challenge := False\<rparr>) of
              Running g' \<Rightarrow> handle_clicks cfg es g'
            | Exited g' \<Rightarrow> Exited g'
            | Final g' \<Rightarrow> Final g')
         else handle_clicks cfg es g)
      else handle_clicks cfg es g)"

text \<open>
  One pass through the body of the loop in \<^verbatim>\<open>Game.run\<close>. The input is everything the
  pass reads from outside; the result is how the loop goes on, with the list of what the
  pass did to the screen and the event queue. \<open>None\<close> is a \<^verbatim>\<open>KeyError\<close>.
\<close>

record frame_input =
  in_dt :: real
  in_events :: "(event \<times> menu_result) list"
  in_keys :: keys
  in_ticks :: int
  in_serve :: serve_env
  in_mouse_events :: "(event \<times> response) list"

datatype action =
  Poll_events | Fill_background | Update_sprites | Draw_sprites | Display_score int int
  | Draw_retry_modal | Poll_mouse_events | Final_menu | Display_update

text \<open>
  Modelled from the spec: the class \<^verbatim>\<open>AllSprites\<close> (module \<^verbatim>\<open>groups\<close>) is not among the
  sources. Its \<^verbatim>\<open>update\<close> is the simulation update of the spec's game loop: it updates
  every sprite of the group with the time step, here in the order in which the
  constructor of the game adds them (player, ball, opponent).
\<close>

definition all_sprites_update :: "settings \<Rightarrow> frame_input \<Rightarrow> Game \<Rightarrow> Game option" where
  "all_sprites_update cfg inp g = do {
     let g1 = g\<lparr>player := Player_update cfg (in_keys inp) (in_dt inp) (player g)\<rparr>;
     g2 \<leftarrow> Ball_update cfg (in_ticks inp) (in_serve inp) (in_dt inp) g1;
     Some (g2\<lparr>opponent := Opponent_update cfg (ball g2) (in_dt inp) (opponent g2)\<rparr>)
   }"

definition finish :: "Game \<Rightarrow> action list \<Rightarrow> outcome \<times> action list" where
  \<comment> \<open>the end of the pass: the final menu when the challenge is won\<close>
  "finish g acts =
     (if in_challenge g \<and> challenge_won g then (Final g, acts @ [Final_menu])
      else (Running g, acts @ [Display_update]))"

definition frame :: "settings \<Rightarrow> frame_input \<Rightarrow> Game \<Rightarrow> (outcome \<times> action list) option" where
  "frame cfg inp g =
     (case handle_events cfg (in_events inp) g of
        Running g1 \<Rightarrow> do {
          g2 \<leftarrow> (if \<not> show_retry_modal g1 then all_sprites_update cfg inp g1 else Some g1);
          p \<leftarrow> score g2 ''player'';
          q \<leftarrow> score g2 ''opponent'';
          let acts = [Poll_events, Fill_background]
                     @ (if \<not> show_retry_modal g1 then [Update_sprites] else [])
                     @ [Draw_sprites, Display_score p q];
          if show_retry_modal g2 then
            (case handle_clicks cfg (in_mouse_events inp) g2 of
               Running g3 \<Rightarrow> Some (finish g3 (acts @ [Draw_retry_modal, Poll_mouse_events]))
             | Exited g3 \<Rightarrow> Some (Exited g3, acts @ [Draw_retry_modal, Poll_mouse_events])
             | Final g3 \<Rightarrow> Some (Final g3, acts @ [Draw_retry_modal, Poll_mouse_events]))
          else Some (finish g2 acts)
        }
      | Exited g1 \<Rightarrow> Some (Exited g1, [Poll_events])
      | Final g1 \<Rightarrow> Some (Final g1, [Poll_events]))"

text \<open>The loop: passes follow one another while the outcome is \<open>Running\<close>.\<close>

fun run_frames :: "settings \<Rightarrow> frame_input list \<Rightarrow> Game \<Rightarrow> outcome option" where
  "run_frames cfg [] g = Some (Running g)"
| "run_frames cfg (inp # inps) g =
     (case frame cfg inp g of
        None \<Rightarrow> None
      | Some (Running g', acts) \<Rightarrow> run_frames cfg inps g'
      | Some (Exited g', acts) \<Rightarrow> Some (Exited g')
      | Some (Final g', acts) \<Rightarrow> Some (Final g'))"

text \<open>The game an outcome carries.\<close>

fun outcome_game :: "outcome \<Rightarrow> Game" where
  "outcome_game (Running g) = g"
| "outcome_game (Exited g) = g"
| "outcome_game (Final g) = g"

text \<open>
  The state in which \<open>challenge_menu\<close> leaves the flags and the score; the proofs about the
  loop use it for a challenge that has just been restarted.
\<close>

definition fresh :: "Game \<Rightarrow> bool" where
  "fresh g = (\<not> show_retry_modal g \<and> \<not> challenge_won g \<and> in_challenge g
              \<and> score g = [''player'' \<mapsto> 0, ''opponent'' \<mapsto> 0])"

section \<open>A sample configuration\<close>

text \<open>
  A configuration and a serve on which the functions above can be evaluated: a window of
  1280 by 720, paddles of 40 by 100 near the two sides, a ball of 30 by 30.
  \<open>sample_game\<close> is the game as it stands when the challenge popup has been closed for
  the first time.
\<close>

definition sample_settings :: settings where
  "sample_settings =
     \<lparr>WINDOW_WIDTH = 1280, WINDOW_HEIGHT = 720,
      SIZE_paddle = (40, 100), SIZE_ball = (30, 30),
      POS_player = (1230, 360), POS_opponent = (50, 360),
      SPEED_player = 500, SPEED_opponent = 250, SPEED_ball = 450\<rparr>"

definition sample_env :: serve_env where
  "sample_env = \<lparr>randbelow_x = 0, random_y = 1 / 2, randbelow_sign = 1, ticks = 5000\<rparr>"

definition sample_game :: Game where
  "sample_game =
     challenge_menu sample_settings sample_env (Game_init sample_settings None sample_env)"

text \<open>
  Two variants in which the ball has reached a side of the window: beyond the right edge,
  and beyond the left edge.
\<close>

definition sample_exit_right :: Game where
  "sample_exit_right =
     sample_game\<lparr>ball := (ball sample_game)\<lparr>rect := \<lparr>rect_x = 1260, rect_y = 345, rect_w = 30, rect_h = 30\<rparr>\<rparr>\<rparr>"

definition sample_exit_left :: Game where
  "sample_exit_left =
     sample_game\<lparr>ball := (ball sample_game)\<lparr>rect := \<lparr>rect_x = - 5, rect_y = 345, rect_w = 30, rect_h = 30\<rparr>\<rparr>\<rparr>"

text \<open>
  The sample ball one step before and one step after it reaches the player's paddle from
  the left.
\<close>

definition sample_approach :: Ball where
  "sample_approach =
     (ball sample_game)\<lparr>rect := \<lparr>rect_x = 1185, rect_y = 345, rect_w = 30, rect_h = 30\<rparr>,
                        old_rect := \<lparr>rect_x = 1175, rect_y = 345, rect_w = 30, rect_h = 30\<rparr>\<rparr>"

text \<open>
  A game in which the player has overshot and the retry modal is shown, and the input of
  a pass in which a key other than Escape is pressed and the mouse is clicked away from
  the buttons of the modal.
\<close>

definition sample_overshoot :: Game where
  "sample_overshoot =
     sample_game\<lparr>score := [''player'' \<mapsto> 27, ''opponent'' \<mapsto> 7], show_retry_modal := True\<rparr>"

definition sample_idle_input :: frame_input where
  "sample_idle_input =
     \<lparr>in_dt = 1 / 60,
      in_events = [(KEYDOWN K_OTHER, Menu_exit)],
      in_keys = \<lparr>K_UP = False, K_DOWN = True\<rparr>,
      in_ticks = 5500,
      in_serve = sample_env,
      in_mouse_events =
        [(MOUSEBUTTONDOWN 1, \<lparr>mouse_pos = (10, 10), retry_env = sample_env, menu = Menu_exit\<rparr>)]\<rparr>"

text \<open>
  A rally: the sample game with the ball in flight towards the right edge, past the
  player's paddle, at full speed; the same rally at 26 to 6; the ball after the next
  step; the serve that the clock at 7000 starts; and the input of a pass at that time
  with no key pressed and no event.
\<close>

definition sample_env_late :: serve_env where
  "sample_env_late = \<lparr>randbelow_x = 1, random_y = 0, randbelow_sign = 0, ticks = 7000\<rparr>"

definition sample_rally :: Game where
  "sample_rally =
     sample_game\<lparr>ball := (ball sample_game)
                    \<lparr>rect := \<lparr>rect_x = 1260, rect_y = 345, rect_w = 30, rect_h = 30\<rparr>,
                     old_rect := \<lparr>rect_x = 1252, rect_y = 339, rect_w = 30, rect_h = 30\<rparr>,
                     speed_modifier := 1\<rparr>\<rparr>"

definition sample_match_point :: Game where
  "sample_match_point = sample_rally\<lparr>score := [''player'' \<mapsto> 26, ''opponent'' \<mapsto> 6]\<rparr>"

definition sample_flying :: Ball where
  "sample_flying =
     \<lparr>rect = \<lparr>rect_x = 1268, rect_y = 351, rect_w = 30, rect_h = 30\<rparr>,
      old_rect = \<lparr>rect_x = 1260, rect_y = 345, rect_w = 30, rect_h = 30\<rparr>,
      direction = (1, 3 / 4), speed_modifier = 1, start_time = 5000, duration = 1200\<rparr>"

definition sample_served :: Ball where
  "sample_served =
     \<lparr>rect = \<lparr>rect_x = 625, rect_y = 345, rect_w = 30, rect_h = 30\<rparr>,
      old_rect = \<lparr>rect_x = 1260, rect_y = 345, rect_w = 30, rect_h = 30\<rparr>,
      direction = (- 1, - (7 / 10)), speed_modifier = 1, start_time = 7000, duration = 1200\<rparr>"

definition sample_play_input :: frame_input where
  "sample_play_input =
     \<lparr>in_dt = 1 / 60,
      in_events = [],
      in_keys = \<lparr>K_UP = False, K_DOWN = False\<rparr>,
      in_ticks = 7000,
      in_serve = sample_env_late,
      in_mouse_events = []\<rparr>"

definition sample_after_win :: Game where
  "sample_after_win =
     sample_game\<lparr>score := [''player'' \<mapsto> 26, ''opponent'' \<mapsto> 7],
                  challenge_won := True,
                  ball := sample_served,
                  opponent :=
                    \<lparr>rect = \<lparr>rect_x = 30, rect_y = 306, rect_w = 40, rect_h = 100\<rparr>,
                     old_rect = \<lparr>rect_x = 30, rect_y = 310, rect_w = 40, rect_h = 100\<rparr>,
                     Paddle.direction = - 1, speed = 250\<rparr>\<rparr>"

text \<open>
  A window of odd width with a ball two pixels narrower, and the game as it stands when
  the challenge popup has been closed for the first time with these settings.
\<close>

definition sample_wide_settings :: settings where
  "sample_wide_settings = sample_settings\<lparr>WINDOW_WIDTH := 1281, SIZE_ball := (1279, 30)\<rparr>"

definition sample_wide_game :: Game where
  "sample_wide_game =
     challenge_menu sample_wide_settings sample_env
       (Game_init sample_wide_settings None sample_env)"

section \<open>Facts about the sample game\<close>

lemma sample_game_flags:
  "in_challenge sample_game" "\<not> challenge_won sample_game" "\<not> show_retry_modal sample_game"
  "score sample_game = [''player'' \<mapsto> 0, ''opponent'' \<mapsto> 0]"
  by (simp_all add: sample_game_def challenge_menu_def Game_init_def Let_def)

lemma sample_won:
  "update_score ''opponent'' (sample_game\<lparr>score := [''player'' \<mapsto> 26, ''opponent'' \<mapsto> 6]\<rparr>)
     = Some (sample_game\<lparr>score := [''player'' \<mapsto> 26, ''opponent'' \<mapsto> 7], challenge_won := True\<rparr>)"
  unfolding update_score_def TARGET_PLAYER_def TARGET_OPPONENT_def
  by (simp add: sample_game_flags)

lemma sample_player:
  "player sample_game =
     \<lparr>rect = \<lparr>rect_x = 1210, rect_y = 310, rect_w = 40, rect_h = 100\<rparr>,
      old_rect = \<lparr>rect_x = 1210, rect_y = 310, rect_w = 40, rect_h = 100\<rparr>,
      Paddle.direction = 0, speed = 500\<rparr>"
  by (simp add: sample_game_def challenge_menu_def Game_init_def Player_init_def Let_def
      reposition_def sample_settings_def get_rect_def set_center_def int_of_float_def
      half_def rect_centerx_def)

lemma sample_opponent:
  "opponent sample_game =
     \<lparr>rect = \<lparr>rect_x = 30, rect_y = 310, rect_w = 40, rect_h = 100\<rparr>,
      old_rect = \<lparr>rect_x = 1210, rect_y = 310, rect_w = 40, rect_h = 100\<rparr>,
      Paddle.direction = 0, speed = 250\<rparr>"
  by (simp add: sample_game_def challenge_menu_def Game_init_def Opponent_init_def Let_def
      reposition_def sample_settings_def get_rect_def set_center_def int_of_float_def
      half_def rect_centerx_def)

lemma sample_ball:
  "ball sample_game =
     \<lparr>rect = \<lparr>rect_x = 625, rect_y = 345, rect_w = 30, rect_h = 30\<rparr>,
      old_rect = \<lparr>rect_x = 625, rect_y = 345, rect_w = 30, rect_h = 30\<rparr>,
      direction = (1, 3 / 4), speed_modifier = 0, start_time = 5000, duration = 1200\<rparr>"
  by (simp add: sample_game_def challenge_menu_def Game_init_def Ball_init_def Ball_reset_def
      Let_def sample_settings_def sample_env_def get_rect_def set_center_def int_of_float_def
      half_def choice_def uniform_def)

lemma sample_approach_facts:
  "rect sample_approach = \<lparr>rect_x = 1185, rect_y = 345, rect_w = 30, rect_h = 30\<rparr>"
  "old_rect sample_approach = \<lparr>rect_x = 1175, rect_y = 345, rect_w = 30, rect_h = 30\<rparr>"
  "direction sample_approach = (1, 3 / 4)"
  by (simp_all add: sample_approach_def sample_ball)

lemma sample_env_valid: "valid_env sample_env"
  by (simp add: valid_env_def sample_env_def)

section \<open>What the operations keep\<close>

lemmas rect_defs = rect_left_def rect_top_def rect_right_def rect_bottom_def
  set_left_def set_top_def set_right_def set_bottom_def

lemma collide_keeps:
  "rect_w (rect (collide d s b)) = rect_w (rect b)"
  "rect_h (rect (collide d s b)) = rect_h (rect b)"
  "old_rect (collide d s b) = old_rect b"
  "speed_modifier (collide d s b) = speed_modifier b"
  "start_time (collide d s b) = start_time b"
  "duration (collide d s b) = duration b"
  by (simp_all add: collide_def Let_def rect_defs)

lemma collision_keeps:
  "rect_w (rect (collision d ss b)) = rect_w (rect b)"
  "rect_h (rect (collision d ss b)) = rect_h (rect b)"
  "old_rect (collision d ss b) = old_rect b"
  "speed_modifier (collision d ss b) = speed_modifier b"
  "start_time (collision d ss b) = start_time b"
  "duration (collision d ss b) = duration b"
  by (induction ss arbitrary: b; simp add: collide_keeps)+

lemma Ball_move_keeps:
  "rect_w (rect (Ball_move cfg ss dt b)) = rect_w (rect b)"
  "rect_h (rect (Ball_move cfg ss dt b)) = rect_h (rect b)"
  "old_rect (Ball_move cfg ss dt b) = old_rect b"
  "speed_modifier (Ball_move cfg ss dt b) = speed_modifier b"
  "start_time (Ball_move cfg ss dt b) = start_time b"
  "duration (Ball_move cfg ss dt b) = duration b"
  by (simp_all add: Ball_move_def Let_def collision_keeps)

lemma bounce_walls_keeps:
  "rect_x (rect (bounce_walls cfg b)) = rect_x (rect b)"
  "rect_w (rect (bounce_walls cfg b)) = rect_w (rect b)"
  "rect_h (rect (bounce_walls cfg b)) = rect_h (rect b)"
  "old_rect (bounce_walls cfg b) = old_rect b"
  "speed_modifier (bounce_walls cfg b) = speed_modifier b"
  "start_time (bounce_walls cfg b) = start_time b"
  "duration (bounce_walls cfg b) = duration b"
  by (simp_all add: bounce_walls_def Let_def rect_defs)

lemma bounce_walls_vertical:
  "rect_h (rect b) \<le> WINDOW_HEIGHT cfg \<Longrightarrow>
     0 \<le> rect_top (rect (bounce_walls cfg b))
     \<and> rect_bottom (rect (bounce_walls cfg b)) \<le> WINDOW_HEIGHT cfg"
  by (auto simp: bounce_walls_def Let_def rect_defs)

lemma update_score_keeps:
  "update_score side g = Some g' \<Longrightarrow>
     ball g' = ball g \<and> player g' = player g \<and> opponent g' = opponent g
     \<and> in_challenge g' = in_challenge g"
  by (auto simp: update_score_def Let_def split: if_splits bind_splits)

lemma update_score_total:
  "score g ''player'' = Some p \<Longrightarrow> score g ''opponent'' = Some q \<Longrightarrow>
     \<exists>g'. update_score side g = Some g'"
  by (auto simp: update_score_def Let_def)

lemma update_score_counts:
  assumes "score g ''player'' = Some p" "score g ''opponent'' = Some q"
    and "update_score side g = Some g'"
  shows "score g' = (if side = ''player'' then (score g)(''player'' \<mapsto> p + 1)
                     else (score g)(''opponent'' \<mapsto> q + 1))"
  using assms by (auto simp: update_score_def Let_def split: if_splits bind_splits)

lemma wall_collision_ball:
  "wall_collision cfg env g = Some g' \<Longrightarrow>
     ball g' = bounce_walls cfg (ball g) \<or> ball g' = Ball_reset cfg env (bounce_walls cfg (ball g))"
  by (auto simp: wall_collision_def Let_def split: if_splits bind_splits dest: update_score_keeps)

lemma Ball_reset_centre:
  "rect_centerx (rect (Ball_reset cfg env b)) = int_of_float (real_of_int (WINDOW_WIDTH cfg) / 2)"
  "rect_centery (rect (Ball_reset cfg env b)) = int_of_float (real_of_int (WINDOW_HEIGHT cfg) / 2)"
  by (simp_all add: Ball_reset_def set_center_def rect_centerx_def rect_centery_def)

lemma Ball_reset_direction:
  assumes "valid_env env"
  shows "(fst (direction (Ball_reset cfg env b)) = 1 \<or> fst (direction (Ball_reset cfg env b)) = - 1)
         \<and> 0.7 \<le> \<bar>snd (direction (Ball_reset cfg env b))\<bar>
         \<and> \<bar>snd (direction (Ball_reset cfg env b))\<bar> \<le> 0.8"
proof -
  from assms have kx: "randbelow_x env = 0 \<or> randbelow_x env = 1"
    and ks: "randbelow_sign env = 0 \<or> randbelow_sign env = 1"
    and r: "0 \<le> random_y env" "random_y env < 1"
    by (auto simp: valid_env_def)
  have u: "0.7 \<le> uniform 0.7 0.8 (random_y env)" "uniform 0.7 0.8 (random_y env) \<le> 0.8"
    using r by (simp_all add: uniform_def)
  from kx have x: "choice [1, - 1] (randbelow_x env) = (1::int) \<or> choice [1, - 1] (randbelow_x env) = (- 1::int)"
    by (auto simp: choice_def)
  from ks have s: "choice [- 1, 1] (randbelow_sign env) = (1::int) \<or> choice [- 1, 1] (randbelow_sign env) = (- 1::int)"
    by (auto simp: choice_def)
  from s u have "0.7 \<le> \<bar>uniform 0.7 0.8 (random_y env) * real_of_int (choice [- 1, 1] (randbelow_sign env))\<bar>
     \<and> \<bar>uniform 0.7 0.8 (random_y env) * real_of_int (choice [- 1, 1] (randbelow_sign env))\<bar> \<le> 0.8"
    by auto
  with x show ?thesis
    by (auto simp: Ball_reset_def)
qed

lemma wall_collision_exit:
  assumes "rect_right (rect (ball g)) \<ge> WINDOW_WIDTH cfg \<or> rect_left (rect (ball g)) \<le> 0"
    and "score g ''player'' = Some p" "score g ''opponent'' = Some q"
  shows "\<exists>g1. update_score (scoring_side cfg (ball g)) (g\<lparr>ball := bounce_walls cfg (ball g)\<rparr>) = Some g1
           \<and> wall_collision cfg env g
               = Some (g1\<lparr>ball := Ball_reset cfg env (bounce_walls cfg (ball g))\<rparr>)"
proof -
  let ?b = "bounce_walls cfg (ball g)"
  have side: "scoring_side cfg ?b = scoring_side cfg (ball g)"
    by (simp add: scoring_side_def bounce_walls_keeps)
  from assms(1) have exit: "rect_right (rect ?b) \<ge> WINDOW_WIDTH cfg \<or> rect_left (rect ?b) \<le> 0"
    by (simp add: rect_right_def rect_left_def bounce_walls_keeps)
  from assms(2,3) obtain g1 where g1: "update_score (scoring_side cfg (ball g)) (g\<lparr>ball := ?b\<rparr>) = Some g1"
    using update_score_total [of "g\<lparr>ball := ?b\<rparr>" p q] by auto
  from update_score_keeps [OF g1] have "ball g1 = ?b" by simp
  with g1 exit side show ?thesis
    by (auto simp: wall_collision_def Let_def)
qed

lemma collide_horizontal:
  assumes "rect_w (old_rect b) = rect_w (rect b)" "rect_w (old_rect s) = rect_w (rect s)"
    and "0 \<le> rect_w (rect b)" "0 \<le> rect_w (rect s)"
  shows "collide ''horizontal'' s b =
     (if colliderect (rect s) (rect b)
         \<and> rect_right (rect b) \<ge> rect_left (rect s)
         \<and> rect_right (old_rect b) \<le> rect_left (old_rect s)
      then b\<lparr>rect := set_right (rect b) (rect_left (rect s)),
             direction := (- fst (direction b), snd (direction b))\<rparr>
      else if colliderect (rect s) (rect b)
         \<and> rect_left (rect b) \<le> rect_right (rect s)
         \<and> rect_left (old_rect b) \<ge> rect_right (old_rect s)
      then b\<lparr>rect := set_left (rect b) (rect_right (rect s)),
             direction := (- fst (direction b), snd (direction b))\<rparr>
      else b)"
proof (cases "colliderect (rect s) (rect b)")
  case False
  then show ?thesis by (simp add: collide_def)
next
  case True
  then have nz: "rect_w (rect b) \<noteq> 0" "rect_w (rect s) \<noteq> 0"
    by (auto simp: colliderect_def split: if_splits)
  show ?thesis
  proof (cases "rect_right (rect b) \<ge> rect_left (rect s)
         \<and> rect_right (old_rect b) \<le> rect_left (old_rect s)")
    case l: True
    with assms nz have "\<not> rect_left (old_rect b) \<ge> rect_right (old_rect s)"
      by (simp add: rect_defs)
    with True l show ?thesis
      by (simp add: collide_def Let_def)
  next
    case False
    with True show ?thesis
      by (auto simp: collide_def Let_def)
  qed
qed

lemma collide_vertical:
  assumes "rect_h (old_rect b) = rect_h (rect b)" "rect_h (old_rect s) = rect_h (rect s)"
    and "0 \<le> rect_h (rect b)" "0 \<le> rect_h (rect s)"
  shows "collide ''vertical'' s b =
     (if colliderect (rect s) (rect b)
         \<and> rect_bottom (rect b) \<ge> rect_top (rect s)
         \<and> rect_bottom (old_rect b) \<le> rect_top (old_rect s)
      then b\<lparr>rect := set_bottom (rect b) (rect_top (rect s)),
             direction := (fst (direction b), - snd (direction b))\<rparr>
      else if colliderect (rect s) (rect b)
         \<and> rect_top (rect b) \<le> rect_bottom (rect s)
         \<and> rect_top (old_rect b) \<ge> rect_bottom (old_rect s)
      then b\<lparr>rect := set_top (rect b) (rect_bottom (rect s)),
             direction := (fst (direction b), - snd (direction b))\<rparr>
      else b)"
proof (cases "colliderect (rect s) (rect b)")
  case False
  then show ?thesis by (simp add: collide_def)
next
  case True
  then have nz: "rect_h (rect b) \<noteq> 0" "rect_h (rect s) \<noteq> 0"
    by (auto simp: colliderect_def split: if_splits)
  show ?thesis
  proof (cases "rect_bottom (rect b) \<ge> rect_top (rect s)
         \<and> rect_bottom (old_rect b) \<le> rect_top (old_rect s)")
    case l: True
    with assms nz have "\<not> rect_top (old_rect b) \<ge> rect_bottom (old_rect s)"
      by (simp add: rect_defs)
    with True l show ?thesis
      by (simp add: collide_def Let_def)
  next
    case False
    with True show ?thesis
      by (auto simp: collide_def Let_def)
  qed
qed

lemma collide_magnitude:
  "\<bar>fst (direction (collide dir s b))\<bar> = \<bar>fst (direction b)\<bar>
   \<and> \<bar>snd (direction (collide dir s b))\<bar> = \<bar>snd (direction b)\<bar>"
  by (simp add: collide_def Let_def)

lemma int_of_float_of_int: "int_of_float (real_of_int n) = n"
proof (cases "0 \<le> n")
  case True
  have "\<lfloor>real_of_int n + 1 / 2\<rfloor> = n" by linarith
  with True show ?thesis by (simp add: int_of_float_def)
next
  case False
  have "\<lceil>real_of_int n - 1 / 2\<rceil> = n" by linarith
  with False show ?thesis by (simp add: int_of_float_def)
qed

lemma int_of_float_half: "0 \<le> n \<Longrightarrow> int_of_float (real_of_int n / 2) = (n + 1) div 2"
proof -
  assume "0 \<le> n"
  then have "int_of_float (real_of_int n / 2) = \<lfloor>real_of_int (n + 1) / real_of_int 2\<rfloor>"
    by (simp add: int_of_float_def add_divide_distrib)
  also have "\<dots> = (n + 1) div 2" by (rule floor_divide_of_int_eq)
  finally show ?thesis .
qed

lemma Ball_reset_inside:
  assumes "0 \<le> rect_w (rect b)" "rect_w (rect b) + 3 \<le> WINDOW_WIDTH cfg"
    and "0 \<le> rect_h (rect b)" "rect_h (rect b) < WINDOW_HEIGHT cfg"
  shows "0 \<le> rect_top (rect (Ball_reset cfg env b))
         \<and> rect_bottom (rect (Ball_reset cfg env b)) \<le> WINDOW_HEIGHT cfg
         \<and> 0 < rect_left (rect (Ball_reset cfg env b))
         \<and> rect_right (rect (Ball_reset cfg env b)) < WINDOW_WIDTH cfg"
proof -
  from assms have "0 \<le> WINDOW_WIDTH cfg" "0 \<le> WINDOW_HEIGHT cfg" by simp_all
  then have c: "int_of_float (real_of_int (WINDOW_WIDTH cfg) / 2) = (WINDOW_WIDTH cfg + 1) div 2"
    "int_of_float (real_of_int (WINDOW_HEIGHT cfg) / 2) = (WINDOW_HEIGHT cfg + 1) div 2"
    by (simp_all add: int_of_float_half)
  from assms show ?thesis
    unfolding Ball_reset_def set_center_def rect_defs half_def
    by (simp add: c) arith
qed

lemma Ball_move_serving:
  assumes "speed_modifier b = 0"
  shows "Ball_move cfg ps dt b = collision ''vertical'' ps (collision ''horizontal'' ps b)"
proof -
  have x: "b\<lparr>rect := (rect b)\<lparr>rect_x := int_of_float (real_of_int (rect_x (rect b))
             + fst (direction b) * SPEED_ball cfg * dt * real_of_int (speed_modifier b))\<rparr>\<rparr> = b"
    using assms by (simp add: int_of_float_of_int)
  let ?b2 = "collision ''horizontal'' ps b"
  have "speed_modifier ?b2 = 0" using assms by (simp add: collision_keeps)
  then have y: "?b2\<lparr>rect := (rect ?b2)\<lparr>rect_y := int_of_float (real_of_int (rect_y (rect ?b2))
             + snd (direction ?b2) * SPEED_ball cfg * dt * real_of_int (speed_modifier ?b2))\<rparr>\<rparr> = ?b2"
    by (simp add: int_of_float_of_int)
  show ?thesis
    unfolding Ball_move_def Let_def x y ..
qed

lemma collide_rejected:
  "\<not> rect_right (old_rect b) \<le> rect_left (old_rect s) \<Longrightarrow>
   \<not> rect_left (old_rect b) \<ge> rect_right (old_rect s) \<Longrightarrow> collide ''horizontal'' s b = b"
  "\<not> rect_bottom (old_rect b) \<le> rect_top (old_rect s) \<Longrightarrow>
   \<not> rect_top (old_rect b) \<ge> rect_bottom (old_rect s) \<Longrightarrow> collide ''vertical'' s b = b"
  by (simp_all add: collide_def)

lemma Ball_update_unfold:
  "Ball_update cfg now env dt g =
     wall_collision cfg env
       (g\<lparr>ball := Ball_move cfg [player g, opponent g] dt
                     (Ball_timer now ((ball g)\<lparr>old_rect := rect (ball g)\<rparr>))\<rparr>)"
  by (simp add: Ball_update_def Let_def)

lemma Ball_timer_keeps:
  "rect (Ball_timer now b) = rect b" "old_rect (Ball_timer now b) = old_rect b"
  by (simp_all add: Ball_timer_def)

lemma wall_collision_inside:
  assumes "0 \<le> rect_w (rect (ball g))" "rect_w (rect (ball g)) + 3 \<le> WINDOW_WIDTH cfg"
    and "0 \<le> rect_h (rect (ball g))" "rect_h (rect (ball g)) < WINDOW_HEIGHT cfg"
    and "score g ''player'' = Some p" "score g ''opponent'' = Some q"
  shows "\<exists>g'. wall_collision cfg env g = Some g'
           \<and> 0 \<le> rect_top (rect (ball g'))
           \<and> rect_bottom (rect (ball g')) \<le> WINDOW_HEIGHT cfg
           \<and> 0 < rect_left (rect (ball g'))
           \<and> rect_right (rect (ball g')) < WINDOW_WIDTH cfg"
proof (cases "rect_right (rect (ball g)) \<ge> WINDOW_WIDTH cfg \<or> rect_left (rect (ball g)) \<le> 0")
  case True
  from wall_collision_exit [OF True assms(5,6), of env]
  obtain g1 where w: "wall_collision cfg env g
      = Some (g1\<lparr>ball := Ball_reset cfg env (bounce_walls cfg (ball g))\<rparr>)"
    by auto
  have "0 \<le> rect_w (rect (bounce_walls cfg (ball g)))"
    "rect_w (rect (bounce_walls cfg (ball g))) + 3 \<le> WINDOW_WIDTH cfg"
    "0 \<le> rect_h (rect (bounce_walls cfg (ball g)))"
    "rect_h (rect (bounce_walls cfg (ball g))) < WINDOW_HEIGHT cfg"
    using assms(1-4) by (simp_all add: bounce_walls_keeps)
  from Ball_reset_inside [OF this, of env] w show ?thesis by simp
next
  case False
  then have x: "\<not> (rect_right (rect (bounce_walls cfg (ball g))) \<ge> WINDOW_WIDTH cfg
                  \<or> rect_left (rect (bounce_walls cfg (ball g))) \<le> 0)"
    by (simp add: rect_right_def rect_left_def bounce_walls_keeps)
  then have w: "wall_collision cfg env g = Some (g\<lparr>ball := bounce_walls cfg (ball g)\<rparr>)"
    by (simp add: wall_collision_def Let_def)
  from assms(4) have "rect_h (rect (ball g)) \<le> WINDOW_HEIGHT cfg" by simp
  from bounce_walls_vertical [OF this] x w show ?thesis by simp
qed

lemma Ball_update_modifier:
  assumes "Ball_update cfg now env dt g = Some g'"
  shows "speed_modifier (ball g')
           = (if now - start_time (ball g) < duration (ball g) then 0 else 1)
         \<and> duration (ball g') = duration (ball g)
         \<and> (start_time (ball g') = start_time (ball g) \<or> start_time (ball g') = ticks env)"
proof -
  let ?b = "Ball_move cfg [player g, opponent g] dt
              (Ball_timer now ((ball g)\<lparr>old_rect := rect (ball g)\<rparr>))"
  from assms have "wall_collision cfg env (g\<lparr>ball := ?b\<rparr>) = Some g'"
    by (simp add: Ball_update_def Let_def)
  from wall_collision_ball [OF this]
  have "ball g' = bounce_walls cfg ?b \<or> ball g' = Ball_reset cfg env (bounce_walls cfg ?b)"
    by simp
  then show ?thesis
    by (auto simp: Ball_reset_def bounce_walls_keeps Ball_move_keeps Ball_timer_def)
qed

lemma Ball_update_serving:
  assumes "now - start_time (ball g) < duration (ball g)"
  shows "Ball_update cfg now env dt g =
           wall_collision cfg env
             (g\<lparr>ball := collision ''vertical'' [player g, opponent g]
                          (collision ''horizontal'' [player g, opponent g]
                            ((ball g)\<lparr>old_rect := rect (ball g), speed_modifier := 0\<rparr>))\<rparr>)"
proof -
  from assms have t: "Ball_timer now ((ball g)\<lparr>old_rect := rect (ball g)\<rparr>)
      = (ball g)\<lparr>old_rect := rect (ball g), speed_modifier := 0\<rparr>"
    by (simp add: Ball_timer_def)
  have "speed_modifier ((ball g)\<lparr>old_rect := rect (ball g), speed_modifier := 0\<rparr>) = 0"
    by simp
  from Ball_move_serving [OF this] show ?thesis
    by (simp only: Ball_update_unfold t)
qed

section \<open>The flags across the game loop\<close>

lemma challenge_menu_flags:
  "show_retry_modal (challenge_menu cfg env g) = show_retry_modal g"
  "\<not> challenge_won (challenge_menu cfg env g)"
  "in_challenge (challenge_menu cfg env g)"
  "score (challenge_menu cfg env g) = [''player'' \<mapsto> 0, ''opponent'' \<mapsto> 0]"
  by (simp_all add: challenge_menu_def Let_def)

lemma reset_challenge_round_flags:
  "\<not> show_retry_modal (reset_challenge_round cfg env g)"
  "challenge_won (reset_challenge_round cfg env g) = challenge_won g"
  "in_challenge (reset_challenge_round cfg env g) = in_challenge g"
  "score (reset_challenge_round cfg env g) = [''player'' \<mapsto> 0, ''opponent'' \<mapsto> 0]"
  by (simp_all add: reset_challenge_round_def Let_def)

lemma return_to_menus_fresh:
  "return_to_menus cfg m (g\<lparr>show_retry_modal := False, in_challenge := False\<rparr>) = Running g'
     \<Longrightarrow> fresh g'"
  by (auto simp: return_to_menus_def fresh_def challenge_menu_flags split: menu_result.splits)

lemma return_to_menus_not_Final: "return_to_menus cfg m g \<noteq> Final g'"
  by (simp add: return_to_menus_def split: menu_result.splits)

lemma handle_events_fresh:
  "handle_events cfg es g = Running g1 \<Longrightarrow> g1 = g \<or> fresh g1"
proof (induction es arbitrary: g)
  case Nil
  then show ?case by simp
next
  case (Cons a es)
  obtain e m where a: "a = (e, m)" by (cases a)
  show ?case
  proof (cases "e = KEYDOWN K_ESCAPE \<and> show_retry_modal g")
    case True
    with Cons.prems a obtain g2 where
      r: "return_to_menus cfg m (g\<lparr>show_retry_modal := False, in_challenge := False\<rparr>) = Running g2"
      and h: "handle_events cfg es g2 = Running g1"
      by (auto split: outcome.splits)
    from Cons.IH [OF h] return_to_menus_fresh [OF r]
    show ?thesis by auto
  next
    case False
    with Cons.prems a have "handle_events cfg es g = Running g1"
      by (auto split: if_splits)
    from Cons.IH [OF this] show ?thesis .
  qed
qed

lemma handle_events_not_Final: "handle_events cfg es g \<noteq> Final g'"
proof (induction es arbitrary: g)
  case Nil
  then show ?case by simp
next
  case (Cons a es)
  obtain e m where a: "a = (e, m)" by (cases a)
  show ?case
    using Cons.IH a
    by (auto split: outcome.splits simp: return_to_menus_not_Final)
qed

lemma handle_clicks_still_shown:
  "handle_clicks cfg ms g = Running g3 \<Longrightarrow> show_retry_modal g3 \<Longrightarrow> g3 = g"
proof (induction ms arbitrary: g)
  case Nil
  then show ?case by simp
next
  case (Cons a ms)
  obtain e r where a: "a = (e, r)" by (cases a)
  show ?case
  proof (cases "e = MOUSEBUTTONDOWN 1 \<and> collidepoint (yes_rect cfg) (mouse_pos r)")
    case True
    with Cons.prems a
    have "handle_clicks cfg ms (reset_challenge_round cfg (retry_env r) g) = Running g3"
      by simp
    from Cons.IH [OF this Cons.prems(2)] Cons.prems(2) reset_challenge_round_flags(1)
    show ?thesis by auto
  next
    case notyes: False
    show ?thesis
    proof (cases "e = MOUSEBUTTONDOWN 1 \<and> collidepoint (no_rect cfg) (mouse_pos r)")
      case True
      with notyes Cons.prems a obtain g2 where
        r: "return_to_menus cfg (menu r) (g\<lparr>show_retry_modal := False, in_challenge := False\<rparr>)
              = Running g2"
        and h: "handle_clicks cfg ms g2 = Running g3"
        by (auto split: outcome.splits)
      from Cons.IH [OF h Cons.prems(2)] return_to_menus_fresh [OF r] Cons.prems(2)
      show ?thesis by (auto simp: fresh_def)
    next
      case False
      with notyes Cons.prems a have "handle_clicks cfg ms g = Running g3"
        by (auto split: if_splits)
      from Cons.IH [OF this Cons.prems(2)] show ?thesis .
    qed
  qed
qed

lemma handle_clicks_not_Final: "handle_clicks cfg ms g \<noteq> Final g'"
proof (induction ms arbitrary: g)
  case Nil
  then show ?case by simp
next
  case (Cons a ms)
  obtain e r where a: "a = (e, r)" by (cases a)
  show ?case
    using Cons.IH a
    by (auto split: outcome.splits simp: return_to_menus_not_Final)
qed

lemma handle_clicks_not_won:
  "handle_clicks cfg ms g = Running g3 \<Longrightarrow> \<not> challenge_won g \<Longrightarrow> \<not> challenge_won g3"
proof (induction ms arbitrary: g)
  case Nil
  then show ?case by simp
next
  case (Cons a ms)
  obtain e r where a: "a = (e, r)" by (cases a)
  show ?case
  proof (cases "e = MOUSEBUTTONDOWN 1 \<and> collidepoint (yes_rect cfg) (mouse_pos r)")
    case True
    with Cons.prems a
    have "handle_clicks cfg ms (reset_challenge_round cfg (retry_env r) g) = Running g3"
      by simp
    from Cons.IH [OF this] Cons.prems(2) show ?thesis
      by (simp add: reset_challenge_round_flags)
  next
    case notyes: False
    show ?thesis
    proof (cases "e = MOUSEBUTTONDOWN 1 \<and> collidepoint (no_rect cfg) (mouse_pos r)")
      case True
      with notyes Cons.prems a obtain g2 where
        r: "return_to_menus cfg (menu r) (g\<lparr>show_retry_modal := False, in_challenge := False\<rparr>)
              = Running g2"
        and h: "handle_clicks cfg ms g2 = Running g3"
        by (auto split: outcome.splits)
      from Cons.IH [OF h] return_to_menus_fresh [OF r]
      show ?thesis by (auto simp: fresh_def)
    next
      case False
      with notyes Cons.prems a have "handle_clicks cfg ms g = Running g3"
        by (auto split: if_splits)
      from Cons.IH [OF this Cons.prems(2)] show ?thesis .
    qed
  qed
qed

lemma update_score_flags:
  assumes "update_score side g = Some g'"
  shows "in_challenge g' = in_challenge g"
    and "\<not> challenge_won g \<Longrightarrow> \<not> show_retry_modal g \<Longrightarrow>
           (challenge_won g' \<longrightarrow> in_challenge g') \<and> \<not> (challenge_won g' \<and> show_retry_modal g')"
    and "score g = [''player'' \<mapsto> 0, ''opponent'' \<mapsto> 0] \<Longrightarrow>
           show_retry_modal g' = show_retry_modal g"
  using assms
  unfolding update_score_def TARGET_PLAYER_def TARGET_OPPONENT_def
  by (auto simp: Let_def split: if_splits bind_splits)

lemma wall_collision_flags:
  assumes "wall_collision cfg env g = Some g'"
  shows "in_challenge g' = in_challenge g"
    and "\<not> challenge_won g \<Longrightarrow> \<not> show_retry_modal g \<Longrightarrow>
           (challenge_won g' \<longrightarrow> in_challenge g') \<and> \<not> (challenge_won g' \<and> show_retry_modal g')"
    and "score g = [''player'' \<mapsto> 0, ''opponent'' \<mapsto> 0] \<Longrightarrow>
           show_retry_modal g' = show_retry_modal g"
proof -
  let ?b = "bounce_walls cfg (ball g)"
  from assms consider (stay) "g' = g\<lparr>ball := ?b\<rparr>"
    | (exit) g1 where "update_score (scoring_side cfg ?b) (g\<lparr>ball := ?b\<rparr>) = Some g1"
        "g' = g1\<lparr>ball := Ball_reset cfg env (ball g1)\<rparr>"
    by (auto simp: wall_collision_def Let_def split: if_splits bind_splits)
  note c = this
  show "in_challenge g' = in_challenge g"
    using c by cases (auto dest: update_score_flags(1))
  show "(challenge_won g' \<longrightarrow> in_challenge g') \<and> \<not> (challenge_won g' \<and> show_retry_modal g')"
    if "\<not> challenge_won g" "\<not> show_retry_modal g"
    using c that by cases (auto dest: update_score_flags(2))
  show "show_retry_modal g' = show_retry_modal g"
    if "score g = [''player'' \<mapsto> 0, ''opponent'' \<mapsto> 0]"
    using c that by cases (auto dest: update_score_flags(3))
qed

lemma all_sprites_update_flags:
  assumes "all_sprites_update cfg inp g = Some g'"
  shows "in_challenge g' = in_challenge g"
    and "\<not> challenge_won g \<Longrightarrow> \<not> show_retry_modal g \<Longrightarrow>
           (challenge_won g' \<longrightarrow> in_challenge g') \<and> \<not> (challenge_won g' \<and> show_retry_modal g')"
    and "score g = [''player'' \<mapsto> 0, ''opponent'' \<mapsto> 0] \<Longrightarrow>
           show_retry_modal g' = show_retry_modal g"
proof -
  let ?g1 = "g\<lparr>player := Player_update cfg (in_keys inp) (in_dt inp) (player g)\<rparr>"
  let ?g2 = "?g1\<lparr>ball := Ball_move cfg [player ?g1, opponent ?g1] (in_dt inp)
                     (Ball_timer (in_ticks inp) ((ball ?g1)\<lparr>old_rect := rect (ball ?g1)\<rparr>))\<rparr>"
  from assms obtain g3 where w: "wall_collision cfg (in_serve inp) ?g2 = Some g3"
    and g': "g' = g3\<lparr>opponent := Opponent_update cfg (ball g3) (in_dt inp) (opponent g3)\<rparr>"
    by (auto simp: all_sprites_update_def Ball_update_def Let_def split: bind_splits)
  show "in_challenge g' = in_challenge g"
    using wall_collision_flags(1) [OF w] g' by simp
  show "(challenge_won g' \<longrightarrow> in_challenge g') \<and> \<not> (challenge_won g' \<and> show_retry_modal g')"
    if "\<not> challenge_won g" "\<not> show_retry_modal g"
    using wall_collision_flags(2) [OF w] that g' by simp
  show "show_retry_modal g' = show_retry_modal g"
    if "score g = [''player'' \<mapsto> 0, ''opponent'' \<mapsto> 0]"
    using wall_collision_flags(3) [OF w] that g' by simp
qed

lemma frame_not_won:
  assumes "\<not> challenge_won g" and "frame cfg inp g = Some (Running g', acts)"
  shows "\<not> challenge_won g'"
proof -
  from assms(2) obtain g1 where he: "handle_events cfg (in_events inp) g = Running g1"
    by (auto simp: frame_def Let_def split: outcome.splits)
  from handle_events_fresh [OF he] assms(1) have nw1: "\<not> challenge_won g1"
    by (auto simp: fresh_def)
  show ?thesis
  proof (cases "show_retry_modal g1")
    case True
    with assms(2) he obtain g3 a3 where
      hc: "handle_clicks cfg (in_mouse_events inp) g1 = Running g3"
      and f: "finish g3 a3 = (Running g', acts)"
      by (auto simp: frame_def Let_def split: outcome.splits bind_splits)
    from f have "g' = g3" by (auto simp: finish_def split: if_splits)
    with handle_clicks_not_won [OF hc nw1] show ?thesis by simp
  next
    case False
    with assms(2) he obtain g2 where u: "all_sprites_update cfg inp g1 = Some g2"
      by (auto simp: frame_def Let_def split: bind_splits)
    from all_sprites_update_flags(2) [OF u nw1 False]
    have w2: "challenge_won g2 \<longrightarrow> in_challenge g2" "\<not> (challenge_won g2 \<and> show_retry_modal g2)"
      by simp_all
    show ?thesis
    proof (cases "show_retry_modal g2")
      case True
      with w2 have nw2: "\<not> challenge_won g2" by simp
      from assms(2) he False u True obtain g3 a3 where
        hc: "handle_clicks cfg (in_mouse_events inp) g2 = Running g3"
        and f: "finish g3 a3 = (Running g', acts)"
        by (auto simp: frame_def Let_def split: outcome.splits bind_splits)
      from f have "g' = g3" by (auto simp: finish_def split: if_splits)
      with handle_clicks_not_won [OF hc nw2] show ?thesis by simp
    next
      case nm: False
      from assms(2) he False u nm obtain a3 where f: "finish g2 a3 = (Running g', acts)"
        by (auto simp: frame_def Let_def split: bind_splits)
      then have "g' = g2" "\<not> (in_challenge g2 \<and> challenge_won g2)"
        by (auto simp: finish_def split: if_splits)
      with w2 show ?thesis by auto
    qed
  qed
qed

lemma finish_state:
  "finish g a = (out, acts) \<Longrightarrow>
     (out = Running g \<or> out = Final g)
     \<and> acts = a @ [if out = Running g then Display_update else Final_menu]"
  by (auto simp: finish_def split: if_splits)

lemma return_to_menus_state:
  "outcome_game (return_to_menus cfg m (g\<lparr>show_retry_modal := False, in_challenge := False\<rparr>))
     = g\<lparr>show_retry_modal := False, in_challenge := False\<rparr>
   \<or> fresh (outcome_game (return_to_menus cfg m (g\<lparr>show_retry_modal := False, in_challenge := False\<rparr>)))"
  by (auto simp: return_to_menus_def fresh_def challenge_menu_flags split: menu_result.splits)

lemma handle_events_keeps_not_won:
  "\<not> challenge_won g \<Longrightarrow> \<not> challenge_won (outcome_game (handle_events cfg es g))"
proof (induction es arbitrary: g)
  case Nil
  then show ?case by simp
next
  case (Cons a es)
  obtain e m where a: "a = (e, m)" by (cases a)
  let ?r = "return_to_menus cfg m (g\<lparr>show_retry_modal := False, in_challenge := False\<rparr>)"
  from return_to_menus_state [of cfg m g] Cons.prems
  have r: "\<not> challenge_won (outcome_game ?r)" by (auto simp: fresh_def)
  show ?case
    using Cons.IH [of g] Cons.IH [of "outcome_game ?r"] Cons.prems r a
    by (cases ?r) (auto simp: return_to_menus_not_Final)
qed

lemma handle_clicks_keeps_not_won:
  "\<not> challenge_won g \<Longrightarrow> \<not> challenge_won (outcome_game (handle_clicks cfg ms g))"
proof (induction ms arbitrary: g)
  case Nil
  then show ?case by simp
next
  case (Cons a ms)
  obtain e r where a: "a = (e, r)" by (cases a)
  let ?r = "return_to_menus cfg (menu r) (g\<lparr>show_retry_modal := False, in_challenge := False\<rparr>)"
  from return_to_menus_state [of cfg "menu r" g] Cons.prems
  have r: "\<not> challenge_won (outcome_game ?r)" by (auto simp: fresh_def)
  have y: "\<not> challenge_won (reset_challenge_round cfg (retry_env r) g)"
    using Cons.prems by (simp add: reset_challenge_round_flags)
  show ?case
    using Cons.IH [of g] Cons.IH [of "outcome_game ?r"] Cons.IH [OF y] Cons.prems r a
    by (cases ?r) (auto simp: return_to_menus_not_Final)
qed

lemma update_score_win:
  assumes "update_score side g = Some g'" "\<not> challenge_won g" "challenge_won g'"
  shows "in_challenge g' \<and> score g' ''player'' = Some TARGET_PLAYER
         \<and> score g' ''opponent'' = Some TARGET_OPPONENT
         \<and> show_retry_modal g' = show_retry_modal g"
  using assms
  by (auto simp: update_score_def Let_def split: if_splits bind_splits)

lemma wall_collision_win:
  assumes "wall_collision cfg env g = Some g'" "\<not> challenge_won g" "challenge_won g'"
  shows "in_challenge g' \<and> score g' ''player'' = Some TARGET_PLAYER
         \<and> score g' ''opponent'' = Some TARGET_OPPONENT
         \<and> show_retry_modal g' = show_retry_modal g"
proof -
  let ?b = "bounce_walls cfg (ball g)"
  from assms(1) consider (stay) "g' = g\<lparr>ball := ?b\<rparr>"
    | (exit) g1 where "update_score (scoring_side cfg ?b) (g\<lparr>ball := ?b\<rparr>) = Some g1"
        "g' = g1\<lparr>ball := Ball_reset cfg env (ball g1)\<rparr>"
    by (auto simp: wall_collision_def Let_def split: if_splits bind_splits)
  then show ?thesis
  proof cases
    case stay
    with assms(2,3) show ?thesis by simp
  next
    case exit
    from update_score_win [OF exit(1)] assms(2,3) exit(2) show ?thesis by simp
  qed
qed

lemma all_sprites_update_win:
  assumes "all_sprites_update cfg inp g = Some g'" "\<not> challenge_won g" "challenge_won g'"
  shows "in_challenge g' \<and> score g' ''player'' = Some TARGET_PLAYER
         \<and> score g' ''opponent'' = Some TARGET_OPPONENT
         \<and> show_retry_modal g' = show_retry_modal g"
proof -
  let ?g1 = "g\<lparr>player := Player_update cfg (in_keys inp) (in_dt inp) (player g)\<rparr>"
  let ?g2 = "?g1\<lparr>ball := Ball_move cfg [player ?g1, opponent ?g1] (in_dt inp)
                     (Ball_timer (in_ticks inp) ((ball ?g1)\<lparr>old_rect := rect (ball ?g1)\<rparr>))\<rparr>"
  from assms(1) obtain g3 where w: "wall_collision cfg (in_serve inp) ?g2 = Some g3"
    and g': "g' = g3\<lparr>opponent := Opponent_update cfg (ball g3) (in_dt inp) (opponent g3)\<rparr>"
    by (auto simp: all_sprites_update_def Ball_update_def Let_def split: bind_splits)
  from wall_collision_win [OF w] assms(2,3) g' show ?thesis by simp
qed

lemma after_clicks_game:
  "(case oc of Running g3 \<Rightarrow> Some (finish g3 a)
      | Exited g3 \<Rightarrow> Some (Exited g3, a)
      | Final g3 \<Rightarrow> Some (Final g3, a)) = Some (out, acts)
   \<Longrightarrow> outcome_game out = outcome_game oc"
  by (cases oc) (auto simp: finish_def split: if_splits)

lemma frame_paused:
  assumes "handle_events cfg (in_events inp) g = Running g1" "show_retry_modal g1"
    and "frame cfg inp g = Some (out, acts)"
  shows "outcome_game out = outcome_game (handle_clicks cfg (in_mouse_events inp) g1)"
proof -
  from assms obtain a where
    "(case handle_clicks cfg (in_mouse_events inp) g1 of
        Running g3 \<Rightarrow> Some (finish g3 a)
      | Exited g3 \<Rightarrow> Some (Exited g3, a)
      | Final g3 \<Rightarrow> Some (Final g3, a)) = Some (out, acts)"
    by (auto simp: frame_def Let_def split: bind_splits)
  then show ?thesis by (rule after_clicks_game)
qed

lemma frame_updated:
  assumes "handle_events cfg (in_events inp) g = Running g1" "\<not> show_retry_modal g1"
    and "all_sprites_update cfg inp g1 = Some g2"
    and "frame cfg inp g = Some (out, acts)"
  shows "show_retry_modal g2 \<Longrightarrow>
           outcome_game out = outcome_game (handle_clicks cfg (in_mouse_events inp) g2)"
    and "\<not> show_retry_modal g2 \<Longrightarrow>
           \<exists>p q. score g2 ''player'' = Some p \<and> score g2 ''opponent'' = Some q
             \<and> (out, acts) = finish g2 [Poll_events, Fill_background, Update_sprites,
                                          Draw_sprites, Display_score p q]"
proof -
  show "outcome_game out = outcome_game (handle_clicks cfg (in_mouse_events inp) g2)"
    if "show_retry_modal g2"
  proof -
    from assms that obtain a where
      "(case handle_clicks cfg (in_mouse_events inp) g2 of
          Running g3 \<Rightarrow> Some (finish g3 a)
        | Exited g3 \<Rightarrow> Some (Exited g3, a)
        | Final g3 \<Rightarrow> Some (Final g3, a)) = Some (out, acts)"
      by (auto simp: frame_def Let_def split: bind_splits)
    then show ?thesis by (rule after_clicks_game)
  qed
  show "\<exists>p q. score g2 ''player'' = Some p \<and> score g2 ''opponent'' = Some q
             \<and> (out, acts) = finish g2 [Poll_events, Fill_background, Update_sprites,
                                          Draw_sprites, Display_score p q]"
    if "\<not> show_retry_modal g2"
    using assms that
    by (auto simp: frame_def Let_def split: bind_splits)
qed

lemma winning_pass:
  assumes "\<not> challenge_won g" and "frame cfg inp g = Some (out, acts)"
    and "challenge_won (outcome_game out)"
  shows "out = Final (outcome_game out) \<and> in_challenge (outcome_game out)
         \<and> score (outcome_game out) ''player'' = Some TARGET_PLAYER
         \<and> score (outcome_game out) ''opponent'' = Some TARGET_OPPONENT
         \<and> acts = [Poll_events, Fill_background, Update_sprites, Draw_sprites,
                    Display_score TARGET_PLAYER TARGET_OPPONENT, Final_menu]"
proof -
  let ?he = "handle_events cfg (in_events inp) g"
  from handle_events_keeps_not_won [OF assms(1)]
  have nw1: "\<not> challenge_won (outcome_game ?he)" .
  from assms(2,3) nw1 obtain g1 where he: "?he = Running g1"
    by (cases ?he) (auto simp: frame_def)
  with nw1 have nw1': "\<not> challenge_won g1" by simp
  have nm1: "\<not> show_retry_modal g1"
  proof
    assume m: "show_retry_modal g1"
    from frame_paused [OF he m assms(2)] handle_clicks_keeps_not_won [OF nw1'] assms(3)
    show False by simp
  qed
  with assms(2) he obtain g2 where u: "all_sprites_update cfg inp g1 = Some g2"
    by (auto simp: frame_def split: bind_splits)
  have nm2: "\<not> show_retry_modal g2"
  proof
    assume m: "show_retry_modal g2"
    from all_sprites_update_flags(2) [OF u nw1' nm1] m have "\<not> challenge_won g2" by simp
    from frame_updated(1) [OF he nm1 u assms(2) m] handle_clicks_keeps_not_won [OF this] assms(3)
    show False by simp
  qed
  from frame_updated(2) [OF he nm1 u assms(2) nm2] obtain p q where
    p: "score g2 ''player'' = Some p" and q: "score g2 ''opponent'' = Some q"
    and f: "(out, acts) = finish g2 [Poll_events, Fill_background, Update_sprites,
                                      Draw_sprites, Display_score p q]"
    by auto
  from f have og: "outcome_game out = g2"
    by (auto simp: finish_def split: if_splits)
  with assms(3) have w2: "challenge_won g2" by simp
  from all_sprites_update_win [OF u nw1' w2]
  have t: "in_challenge g2" "score g2 ''player'' = Some TARGET_PLAYER"
    "score g2 ''opponent'' = Some TARGET_OPPONENT"
    by simp_all
  with p q have "p = TARGET_PLAYER" "q = TARGET_OPPONENT" by simp_all
  with f t w2 og show ?thesis
    by (simp add: finish_def)
qed

section \<open>One update of the ball in the sample game\<close>

lemma collide_miss: "\<not> colliderect (rect s) (rect b) \<Longrightarrow> collide d s b = b"
  by (simp add: collide_def)

lemma sample_timer:
  "Ball_timer 5500 ((ball sample_game)\<lparr>old_rect := rect (ball sample_game)\<rparr>)
     = (ball sample_game)\<lparr>speed_modifier := 0\<rparr>"
  by (simp add: sample_ball Ball_timer_def)

lemma sample_no_collision:
  "\<not> colliderect (rect (player sample_game)) (rect (ball sample_game))"
  "\<not> colliderect (rect (opponent sample_game)) (rect (ball sample_game))"
  by (simp_all add: sample_player sample_opponent sample_ball colliderect_def)

lemma sample_collision:
  "collision d [player sample_game, opponent sample_game] ((ball sample_game)\<lparr>speed_modifier := 0\<rparr>)
     = (ball sample_game)\<lparr>speed_modifier := 0\<rparr>"
  by (simp add: collide_miss sample_no_collision)

lemma sample_move:
  "Ball_move sample_settings [player sample_game, opponent sample_game] (1 / 60)
     ((ball sample_game)\<lparr>speed_modifier := 0\<rparr>) = (ball sample_game)\<lparr>speed_modifier := 0\<rparr>"
proof -
  have "speed_modifier ((ball sample_game)\<lparr>speed_modifier := 0\<rparr>) = 0" by simp
  from Ball_move_serving [OF this] show ?thesis by (simp only: sample_collision)
qed

lemma sample_bounce:
  "bounce_walls sample_settings ((ball sample_game)\<lparr>speed_modifier := 0\<rparr>)
     = (ball sample_game)\<lparr>speed_modifier := 0\<rparr>"
  by (simp add: sample_ball bounce_walls_def rect_defs sample_settings_def)

lemma sample_inside:
  "\<not> WINDOW_WIDTH sample_settings \<le> rect_right (rect (ball sample_game))"
  "\<not> rect_left (rect (ball sample_game)) \<le> 0"
  by (simp_all add: sample_ball rect_defs sample_settings_def)

lemma sample_wall:
  "wall_collision sample_settings sample_env
     (sample_game\<lparr>ball := (ball sample_game)\<lparr>speed_modifier := 0\<rparr>\<rparr>)
     = Some (sample_game\<lparr>ball := (ball sample_game)\<lparr>speed_modifier := 0\<rparr>\<rparr>)"
  by (simp add: wall_collision_def sample_bounce Let_def sample_inside)

lemma sample_ball_update:
  "Ball_update sample_settings 5500 sample_env (1 / 60) sample_game
     = Some (sample_game\<lparr>ball := (ball sample_game)\<lparr>speed_modifier := 0\<rparr>\<rparr>)"
  by (simp add: Ball_update_def sample_timer sample_move sample_wall)

section \<open>A rally in the sample game\<close>

lemma sample_rally_facts:
  "score sample_rally = [''player'' \<mapsto> 0, ''opponent'' \<mapsto> 0]"
  "in_challenge sample_rally" "\<not> challenge_won sample_rally"
  "\<not> show_retry_modal sample_rally"
  "player sample_rally = player sample_game"
  "opponent sample_rally = opponent sample_game"
  "ball sample_rally =
     \<lparr>rect = \<lparr>rect_x = 1260, rect_y = 345, rect_w = 30, rect_h = 30\<rparr>,
      old_rect = \<lparr>rect_x = 1252, rect_y = 339, rect_w = 30, rect_h = 30\<rparr>,
      direction = (1, 3 / 4), speed_modifier = 1, start_time = 5000, duration = 1200\<rparr>"
  by (simp_all add: sample_rally_def sample_game_flags sample_ball)

lemma sample_match_point_facts:
  "score sample_match_point = [''player'' \<mapsto> 26, ''opponent'' \<mapsto> 6]"
  "in_challenge sample_match_point" "\<not> challenge_won sample_match_point"
  "\<not> show_retry_modal sample_match_point"
  "player sample_match_point = player sample_game"
  "opponent sample_match_point = opponent sample_game"
  "ball sample_match_point = ball sample_rally"
  by (simp_all add: sample_match_point_def sample_rally_facts)

lemma sample_rally_timer:
  "Ball_timer 7000 ((ball sample_rally)\<lparr>old_rect := rect (ball sample_rally)\<rparr>)
     = \<lparr>rect = \<lparr>rect_x = 1260, rect_y = 345, rect_w = 30, rect_h = 30\<rparr>,
        old_rect = \<lparr>rect_x = 1260, rect_y = 345, rect_w = 30, rect_h = 30\<rparr>,
        direction = (1, 3 / 4), speed_modifier = 1, start_time = 5000, duration = 1200\<rparr>"
  by (simp add: sample_rally_facts Ball_timer_def)

lemma sample_rally_move:
  "Ball_move sample_settings [player sample_game, opponent sample_game] (1 / 60)
     \<lparr>rect = \<lparr>rect_x = 1260, rect_y = 345, rect_w = 30, rect_h = 30\<rparr>,
      old_rect = \<lparr>rect_x = 1260, rect_y = 345, rect_w = 30, rect_h = 30\<rparr>,
      direction = (1, 3 / 4), speed_modifier = 1, start_time = 5000, duration = 1200\<rparr>
   = sample_flying"
proof -
  let ?ps = "[player sample_game, opponent sample_game]"
  define b0 :: Ball where "b0 =
     \<lparr>rect = \<lparr>rect_x = 1260, rect_y = 345, rect_w = 30, rect_h = 30\<rparr>,
      old_rect = \<lparr>rect_x = 1260, rect_y = 345, rect_w = 30, rect_h = 30\<rparr>,
      direction = (1, 3 / 4), speed_modifier = 1, start_time = 5000, duration = 1200\<rparr>"
  define b1 where "b1 = b0\<lparr>rect := (rect b0)\<lparr>rect_x :=
       int_of_float (real_of_int (rect_x (rect b0))
         + fst (direction b0) * SPEED_ball sample_settings * (1 / 60)
           * real_of_int (speed_modifier b0))\<rparr>\<rparr>"
  define b2 where "b2 = collision ''horizontal'' ?ps b1"
  define b3 where "b3 = b2\<lparr>rect := (rect b2)\<lparr>rect_y :=
       int_of_float (real_of_int (rect_y (rect b2))
         + snd (direction b2) * SPEED_ball sample_settings * (1 / 60)
           * real_of_int (speed_modifier b2))\<rparr>\<rparr>"
  have m: "Ball_move sample_settings ?ps (1 / 60) b0 = collision ''vertical'' ?ps b3"
    unfolding Ball_move_def Let_def b3_def b2_def b1_def ..
  have b1: "b1 = b0\<lparr>rect := \<lparr>rect_x = 1268, rect_y = 345, rect_w = 30, rect_h = 30\<rparr>\<rparr>"
    by (simp add: b1_def b0_def sample_settings_def int_of_float_def)
  have "\<not> colliderect (rect (player sample_game)) (rect b1)"
    "\<not> colliderect (rect (opponent sample_game)) (rect b1)"
    by (simp_all add: b1 sample_player sample_opponent colliderect_def)
  then have b2: "b2 = b1"
    by (simp add: b2_def collide_miss)
  have b3: "b3 = sample_flying"
    by (simp add: b3_def b2 b1 b0_def sample_settings_def int_of_float_def sample_flying_def)
  have "\<not> colliderect (rect (player sample_game)) (rect sample_flying)"
    "\<not> colliderect (rect (opponent sample_game)) (rect sample_flying)"
    by (simp_all add: sample_flying_def sample_player sample_opponent colliderect_def)
  then have "collision ''vertical'' ?ps sample_flying = sample_flying"
    by (simp add: collide_miss)
  with m b3 show ?thesis by (simp add: b0_def)
qed

lemma sample_flying_reset:
  "Ball_reset sample_settings sample_env_late sample_flying = sample_served"
  by (simp add: Ball_reset_def sample_flying_def sample_served_def sample_env_late_def
      sample_settings_def set_center_def int_of_float_def half_def choice_def uniform_def)

lemma sample_flying_bounce: "bounce_walls sample_settings sample_flying = sample_flying"
  by (simp add: bounce_walls_def sample_flying_def rect_defs sample_settings_def)

lemma sample_flying_exit:
  "rect_right (rect sample_flying) \<ge> WINDOW_WIDTH sample_settings"
  "scoring_side sample_settings sample_flying = ''opponent''"
  by (simp_all add: sample_flying_def rect_defs sample_settings_def scoring_side_def)

lemma sample_rally_score:
  "update_score ''opponent'' (sample_rally\<lparr>ball := sample_flying\<rparr>)
     = Some (sample_rally\<lparr>score := [''player'' \<mapsto> 0, ''opponent'' \<mapsto> 1],
                            ball := sample_flying\<rparr>)"
  unfolding update_score_def TARGET_PLAYER_def TARGET_OPPONENT_def
  by (simp add: sample_rally_facts)

lemma sample_rally_ball_update:
  "Ball_update sample_settings 7000 sample_env_late (1 / 60) sample_rally
     = Some (sample_rally\<lparr>score := [''player'' \<mapsto> 0, ''opponent'' \<mapsto> 1],
                            ball := sample_served\<rparr>)"
proof -
  have w: "wall_collision sample_settings sample_env_late (sample_rally\<lparr>ball := sample_flying\<rparr>)
     = Some (sample_rally\<lparr>score := [''player'' \<mapsto> 0, ''opponent'' \<mapsto> 1],
                            ball := sample_served\<rparr>)"
    by (simp add: wall_collision_def sample_flying_bounce sample_flying_exit sample_rally_score
        sample_flying_reset)
  show ?thesis
    unfolding Ball_update_unfold sample_rally_timer
    by (simp only: sample_rally_facts(5,6) sample_rally_move w)
qed

lemma sample_match_score:
  "update_score ''opponent'' (sample_match_point\<lparr>ball := sample_flying\<rparr>)
     = Some (sample_match_point\<lparr>score := [''player'' \<mapsto> 26, ''opponent'' \<mapsto> 7],
                                  challenge_won := True, ball := sample_flying\<rparr>)"
  unfolding update_score_def TARGET_PLAYER_def TARGET_OPPONENT_def
  by (simp add: sample_match_point_facts)

lemma sample_match_ball_update:
  "Ball_update sample_settings 7000 sample_env_late (1 / 60) sample_match_point
     = Some (sample_match_point\<lparr>score := [''player'' \<mapsto> 26, ''opponent'' \<mapsto> 7],
                                  challenge_won := True, ball := sample_served\<rparr>)"
proof -
  have w: "wall_collision sample_settings sample_env_late
       (sample_match_point\<lparr>ball := sample_flying\<rparr>)
     = Some (sample_match_point\<lparr>score := [''player'' \<mapsto> 26, ''opponent'' \<mapsto> 7],
                                  challenge_won := True, ball := sample_served\<rparr>)"
    by (simp add: wall_collision_def sample_flying_bounce sample_flying_exit sample_match_score
        sample_flying_reset)
  show ?thesis
    unfolding Ball_update_unfold sample_match_point_facts(7) sample_rally_timer
    by (simp only: sample_match_point_facts(5,6) sample_rally_move w)
qed

lemma sample_player_idle:
  "Player_update sample_settings \<lparr>K_UP = False, K_DOWN = False\<rparr> (1 / 60) (player sample_game)
     = player sample_game"
  by (simp add: sample_player Player_update_def Player_get_direction_def Paddle_move_def Let_def
      rect_defs set_centery_def rect_centery_def half_def int_of_float_def sample_settings_def)

lemma sample_opponent_chases:
  "Opponent_update sample_settings sample_served (1 / 60) (opponent sample_game)
     = \<lparr>rect = \<lparr>rect_x = 30, rect_y = 306, rect_w = 40, rect_h = 100\<rparr>,
        old_rect = \<lparr>rect_x = 30, rect_y = 310, rect_w = 40, rect_h = 100\<rparr>,
        Paddle.direction = - 1, speed = 250\<rparr>"
  by (simp add: sample_opponent sample_served_def Opponent_update_def Opponent_get_direction_def
      Paddle_move_def Let_def rect_defs set_centery_def rect_centery_def half_def
      int_of_float_def sample_settings_def)

lemma sample_match_sprites:
  "all_sprites_update sample_settings sample_play_input sample_match_point = Some sample_after_win"
proof -
  have p: "sample_match_point\<lparr>player := Player_update sample_settings (in_keys sample_play_input)
             (in_dt sample_play_input) (player sample_match_point)\<rparr> = sample_match_point"
    by (simp add: sample_play_input_def sample_match_point_facts(5) sample_player_idle)
  have i: "in_ticks sample_play_input = 7000" "in_serve sample_play_input = sample_env_late"
    "in_dt sample_play_input = 1 / 60"
    by (simp_all add: sample_play_input_def)
  have "all_sprites_update sample_settings sample_play_input sample_match_point
          = Some (sample_match_point\<lparr>score := [''player'' \<mapsto> 26, ''opponent'' \<mapsto> 7],
                    challenge_won := True, ball := sample_served,
                    opponent := Opponent_update sample_settings sample_served (1 / 60)
                                  (opponent sample_game)\<rparr>)"
    apply (simp only: all_sprites_update_def Let_def p)
    apply (simp only: i sample_match_ball_update)
    apply (simp add: sample_match_point_facts(6))
    done
  then show ?thesis
    by (simp add: sample_opponent_chases sample_after_win_def sample_match_point_def
        sample_rally_def)
qed

lemma sample_win_frame:
  "frame sample_settings sample_play_input sample_match_point =
     Some (Final sample_after_win,
           [Poll_events, Fill_background, Update_sprites, Draw_sprites, Display_score 26 7,
            Final_menu])"
proof -
  have e: "handle_events sample_settings (in_events sample_play_input) sample_match_point
             = Running sample_match_point"
    by (simp add: sample_play_input_def)
  have a: "score sample_after_win ''player'' = Some 26" "score sample_after_win ''opponent'' = Some 7"
    "\<not> show_retry_modal sample_after_win" "in_challenge sample_after_win"
    "challenge_won sample_after_win"
    by (simp_all add: sample_after_win_def sample_game_flags)
  show ?thesis
    by (simp add: frame_def e sample_match_point_facts(4) sample_match_sprites a finish_def)
qed

section \<open>A ball almost as wide as the window\<close>

lemma sample_wide_facts:
  "score sample_wide_game = [''player'' \<mapsto> 0, ''opponent'' \<mapsto> 0]"
  "in_challenge sample_wide_game"
  "ball sample_wide_game =
     \<lparr>rect = \<lparr>rect_x = 2, rect_y = 345, rect_w = 1279, rect_h = 30\<rparr>,
      old_rect = \<lparr>rect_x = 2, rect_y = 345, rect_w = 1279, rect_h = 30\<rparr>,
      direction = (1, 3 / 4), speed_modifier = 0, start_time = 5000, duration = 1200\<rparr>"
  "old_rect (player sample_wide_game) = \<lparr>rect_x = 1210, rect_y = 310, rect_w = 40, rect_h = 100\<rparr>"
  "old_rect (opponent sample_wide_game) = \<lparr>rect_x = 1210, rect_y = 310, rect_w = 40, rect_h = 100\<rparr>"
  by (simp_all add: sample_wide_game_def sample_wide_settings_def challenge_menu_def Game_init_def
      Ball_init_def Ball_reset_def Player_init_def Opponent_init_def reposition_def Let_def
      sample_settings_def sample_env_def get_rect_def set_center_def int_of_float_def half_def
      rect_centerx_def choice_def uniform_def)

lemma sample_wide_collisions:
  "collision ''vertical'' [player sample_wide_game, opponent sample_wide_game]
     (collision ''horizontal'' [player sample_wide_game, opponent sample_wide_game]
        ((ball sample_wide_game)\<lparr>old_rect := rect (ball sample_wide_game), speed_modifier := 0\<rparr>))
   = ball sample_wide_game"
proof -
  have b: "(ball sample_wide_game)\<lparr>old_rect := rect (ball sample_wide_game), speed_modifier := 0\<rparr>
             = ball sample_wide_game"
    by (simp add: sample_wide_facts)
  have h: "collide ''horizontal'' (player sample_wide_game) (ball sample_wide_game) = ball sample_wide_game"
    "collide ''horizontal'' (opponent sample_wide_game) (ball sample_wide_game) = ball sample_wide_game"
    by (rule collide_rejected; simp add: sample_wide_facts rect_defs)+
  have v: "collide ''vertical'' (player sample_wide_game) (ball sample_wide_game) = ball sample_wide_game"
    "collide ''vertical'' (opponent sample_wide_game) (ball sample_wide_game) = ball sample_wide_game"
    by (rule collide_rejected; simp add: sample_wide_facts rect_defs)+
  show ?thesis
    by (simp only: b collision.simps h v)
qed

lemma sample_wide_reset:
  "Ball_reset sample_wide_settings sample_env (ball sample_wide_game) = ball sample_wide_game"
  by (simp add: sample_wide_facts Ball_reset_def sample_wide_settings_def sample_settings_def
      sample_env_def set_center_def int_of_float_def half_def choice_def uniform_def)

lemma sample_wide_update:
  "Ball_update sample_wide_settings 5500 sample_env (1 / 60) sample_wide_game
     = Some (sample_wide_game\<lparr>score := [''opponent'' \<mapsto> 0, ''player'' \<mapsto> 1]\<rparr>)"
proof -
  have t: "5500 - start_time (ball sample_wide_game) < duration (ball sample_wide_game)"
    by (simp add: sample_wide_facts)
  have g: "sample_wide_game\<lparr>ball := ball sample_wide_game\<rparr> = sample_wide_game" by simp
  have bw: "bounce_walls sample_wide_settings (ball sample_wide_game) = ball sample_wide_game"
    by (simp add: bounce_walls_def sample_wide_facts rect_defs sample_wide_settings_def
        sample_settings_def)
  have e: "rect_right (rect (ball sample_wide_game)) \<ge> WINDOW_WIDTH sample_wide_settings"
    "scoring_side sample_wide_settings (ball sample_wide_game) = ''player''"
    by (simp_all add: sample_wide_facts rect_defs scoring_side_def sample_wide_settings_def
        sample_settings_def)
  have u: "update_score ''player'' sample_wide_game
             = Some (sample_wide_game\<lparr>score := [''opponent'' \<mapsto> 0, ''player'' \<mapsto> 1]\<rparr>)"
    unfolding update_score_def TARGET_PLAYER_def TARGET_OPPONENT_def
    by (simp add: sample_wide_facts)
  have w: "wall_collision sample_wide_settings sample_env sample_wide_game
             = Some (sample_wide_game\<lparr>score := [''opponent'' \<mapsto> 0, ''player'' \<mapsto> 1]\<rparr>)"
    by (simp add: wall_collision_def bw e u sample_wide_reset)
  show ?thesis
    by (simp only: Ball_update_serving [OF t] sample_wide_collisions g w)
qed

section \<open>The score and challenge state machine\<close>

text \<open>
  C1. A scoring event that arrives while the challenge is active (in the challenge, not
  won, no retry modal shown) adds exactly one to the counter of the scoring side and
  leaves the other counter alone. If the counters then are 26 for the player and 7 for the
  opponent, the challenge is won; otherwise, if one counter is above its target, the retry
  modal is shown; otherwise nothing else changes. The targets are 26 and 7.
\<close>

theorem update_score_active:
  assumes "in_challenge g" "\<not> challenge_won g" "\<not> show_retry_modal g"
    and "score g ''player'' = Some p" "score g ''opponent'' = Some q"
    and "p' = (if side = ''player'' then p + 1 else p)"
    and "q' = (if side = ''player'' then q else q + 1)"
  shows "TARGET_PLAYER = 26 \<and> TARGET_OPPONENT = 7 \<and>
         update_score side g =
           Some (g\<lparr>score := (score g)(''player'' \<mapsto> p', ''opponent'' \<mapsto> q'),
                   challenge_won := (p' = TARGET_PLAYER \<and> q' = TARGET_OPPONENT),
                   show_retry_modal := (\<not> (p' = TARGET_PLAYER \<and> q' = TARGET_OPPONENT)
                                        \<and> (p' > TARGET_PLAYER \<or> q' > TARGET_OPPONENT))\<rparr>)"
  using assms
  apply (simp add: update_score_def TARGET_PLAYER_def TARGET_OPPONENT_def Let_def)
  apply (auto simp: fun_upd_twist map_upd_triv fun_upd_idem)
  done

theorem update_score_active_witness:
  "update_score ''opponent'' (sample_game\<lparr>score := [''player'' \<mapsto> 26, ''opponent'' \<mapsto> 6]\<rparr>)
     = Some (sample_game\<lparr>score := [''player'' \<mapsto> 26, ''opponent'' \<mapsto> 7], challenge_won := True\<rparr>)
   \<and> update_score ''player'' (sample_game\<lparr>score := [''player'' \<mapsto> 26, ''opponent'' \<mapsto> 7]\<rparr>)
     = Some (sample_game\<lparr>score := [''player'' \<mapsto> 27, ''opponent'' \<mapsto> 7], show_retry_modal := True\<rparr>)
   \<and> update_score ''player'' (sample_game\<lparr>score := [''player'' \<mapsto> 25, ''opponent'' \<mapsto> 6]\<rparr>)
     = Some (sample_game\<lparr>score := [''player'' \<mapsto> 26, ''opponent'' \<mapsto> 6]\<rparr>)"
  using update_score_active [of "sample_game\<lparr>score := [''player'' \<mapsto> 26, ''opponent'' \<mapsto> 6]\<rparr>" 26 6 26 "''opponent''" 7]
    update_score_active [of "sample_game\<lparr>score := [''player'' \<mapsto> 26, ''opponent'' \<mapsto> 7]\<rparr>" 26 7 27 "''player''" 7]
    update_score_active [of "sample_game\<lparr>score := [''player'' \<mapsto> 25, ''opponent'' \<mapsto> 6]\<rparr>" 25 6 26 "''player''" 6]
  unfolding TARGET_PLAYER_def TARGET_OPPONENT_def
  by (simp add: sample_game_flags)

text \<open>
  C9. A single scoring event can take the challenge from not won to won only if, before
  the event, the counter of the side that does not score is already at its target (and the
  counter of the scoring side is one below its own).
\<close>

theorem won_needs_other_at_target:
  assumes "\<not> challenge_won g"
    and "score g ''player'' = Some p" "score g ''opponent'' = Some q"
    and "update_score side g = Some g'" "challenge_won g'"
  shows "(if side = ''player'' then q = TARGET_OPPONENT \<and> p + 1 = TARGET_PLAYER
          else p = TARGET_PLAYER \<and> q + 1 = TARGET_OPPONENT)"
  using assms
  by (auto simp: update_score_def Let_def split: if_splits)

theorem won_needs_other_at_target_witness:
  "update_score ''opponent'' (sample_game\<lparr>score := [''player'' \<mapsto> 26, ''opponent'' \<mapsto> 6]\<rparr>)
     = Some (sample_game\<lparr>score := [''player'' \<mapsto> 26, ''opponent'' \<mapsto> 7], challenge_won := True\<rparr>)
   \<and> (26::int) = TARGET_PLAYER \<and> (6::int) + 1 = TARGET_OPPONENT"
proof -
  let ?g = "sample_game\<lparr>score := [''player'' \<mapsto> 26, ''opponent'' \<mapsto> 6]\<rparr>"
  let ?g' = "sample_game\<lparr>score := [''player'' \<mapsto> 26, ''opponent'' \<mapsto> 7], challenge_won := True\<rparr>"
  have "if ''opponent'' = ''player'' then (6::int) = TARGET_OPPONENT \<and> (26::int) + 1 = TARGET_PLAYER
        else (26::int) = TARGET_PLAYER \<and> (6::int) + 1 = TARGET_OPPONENT"
    by (rule won_needs_other_at_target [of ?g 26 6 "''opponent''" ?g'])
       (simp_all add: sample_game_flags sample_won)
  then have "(26::int) = TARGET_PLAYER \<and> (6::int) + 1 = TARGET_OPPONENT"
    by (simp only: list.inject char.inject simp_thms if_False)
  with sample_won show ?thesis by blast
qed

section \<open>Paddles stay in the window\<close>

text \<open>
  C5. After a paddle's update, for any time step and whatever the direction, the paddle's
  rectangle lies within the window vertically: its top is at least 0 and its bottom at
  most the window's height. The window height and the paddle's size come from the
  settings; the paddle must not be taller than the window, since otherwise no position
  satisfies both bounds.
\<close>

theorem paddle_stays_in_window:
  assumes "rect_h (rect p) \<le> WINDOW_HEIGHT cfg"
  shows "0 \<le> rect_top (rect (Paddle_move cfg dt p))
         \<and> rect_bottom (rect (Paddle_move cfg dt p)) \<le> WINDOW_HEIGHT cfg
         \<and> 0 \<le> rect_top (rect (Player_update cfg ks dt p))
         \<and> rect_bottom (rect (Player_update cfg ks dt p)) \<le> WINDOW_HEIGHT cfg
         \<and> 0 \<le> rect_top (rect (Opponent_update cfg b dt p))
         \<and> rect_bottom (rect (Opponent_update cfg b dt p)) \<le> WINDOW_HEIGHT cfg"
proof -
  have move: "0 \<le> rect_top (rect (Paddle_move cfg dt q))
         \<and> rect_bottom (rect (Paddle_move cfg dt q)) \<le> WINDOW_HEIGHT cfg"
    if "rect_h (rect q) \<le> WINDOW_HEIGHT cfg" for q
    using that by (simp add: Paddle_move_def Let_def rect_defs set_centery_def)
  show ?thesis
    using assms move [of p]
      move [of "Player_get_direction ks (p\<lparr>old_rect := rect p\<rparr>)"]
      move [of "Opponent_get_direction b (p\<lparr>old_rect := rect p\<rparr>)"]
    by (simp add: Player_update_def Opponent_update_def Player_get_direction_def
        Opponent_get_direction_def)
qed

theorem paddle_stays_in_window_witness:
  "rect_h (rect (player sample_game)) \<le> WINDOW_HEIGHT sample_settings
   \<and> 0 \<le> rect_top (rect (Player_update sample_settings \<lparr>K_UP = False, K_DOWN = True\<rparr> 1 (player sample_game)))
   \<and> rect_bottom (rect (Player_update sample_settings \<lparr>K_UP = False, K_DOWN = True\<rparr> 1 (player sample_game)))
       \<le> WINDOW_HEIGHT sample_settings"
proof -
  have h: "rect_h (rect (player sample_game)) \<le> WINDOW_HEIGHT sample_settings"
    by (simp add: sample_player sample_settings_def)
  from h paddle_stays_in_window [OF h, of 1 "\<lparr>K_UP = False, K_DOWN = True\<rparr>"]
  show ?thesis by blast
qed

section \<open>The serve and the side walls\<close>

text \<open>
  C6. A reset does not touch the speed modifier. In the sample rally the ball flies at
  full speed; the update at clock 7000 takes it across the right edge and ends in a
  reset, and the ball then holds the modifier 1 at 0 ms into a new serve of 1200 ms.
\<close>

theorem serve_delay_counterexample:
  "Ball_update sample_settings 7000 sample_env_late (1 / 60) sample_rally
     = Some (sample_rally\<lparr>score := [''player'' \<mapsto> 0, ''opponent'' \<mapsto> 1],
                            ball := sample_served\<rparr>)
   \<and> start_time sample_served = 7000 \<and> duration sample_served = 1200
   \<and> 7000 - start_time sample_served < duration sample_served
   \<and> speed_modifier sample_served = 1"
  by (simp add: sample_rally_ball_update sample_served_def)

text \<open>
  C6, amended. The timer sets the speed modifier at the start of every update, before
  the ball moves, from the clock alone: 0 when less than the serve duration has passed
  since the start of the serve, 1 from the serve duration on. A reset sets the start of
  the serve to the clock and leaves the duration and the modifier as they are. The value
  the timer computes is the one the update moves the ball with and the one the ball
  holds after the update, also when the update ends in a reset; the start of the serve
  changes only in such an update. In an update within the serve duration the direction
  does not move the ball: only the collisions with the paddles and the walls act.
\<close>

theorem serve_delay:
  "speed_modifier (Ball_timer now b) = (if now - start_time b < duration b then 0 else 1)
   \<and> start_time (Ball_reset cfg env b) = ticks env
   \<and> duration (Ball_reset cfg env b) = duration b
   \<and> speed_modifier (Ball_reset cfg env b) = speed_modifier b
   \<and> (\<forall>g'. Ball_update cfg now env' dt g = Some g' \<longrightarrow>
         speed_modifier (ball g')
           = (if now - start_time (ball g) < duration (ball g) then 0 else 1)
         \<and> duration (ball g') = duration (ball g)
         \<and> (start_time (ball g') = start_time (ball g) \<or> start_time (ball g') = ticks env'))
   \<and> (now - start_time (ball g) < duration (ball g) \<longrightarrow>
         Ball_update cfg now env' dt g =
           wall_collision cfg env'
             (g\<lparr>ball := collision ''vertical'' [player g, opponent g]
                          (collision ''horizontal'' [player g, opponent g]
                            ((ball g)\<lparr>old_rect := rect (ball g), speed_modifier := 0\<rparr>))\<rparr>))"
  using Ball_update_modifier [of cfg now env' dt g] Ball_update_serving [of now g cfg env' dt]
  by (simp add: Ball_reset_def Ball_timer_def)

theorem serve_delay_witness:
  "5500 - start_time (ball sample_game) < duration (ball sample_game)
   \<and> Ball_update sample_settings 5500 sample_env (1 / 60) sample_game
       = Some (sample_game\<lparr>ball := (ball sample_game)\<lparr>speed_modifier := 0\<rparr>\<rparr>)
   \<and> rect ((ball sample_game)\<lparr>speed_modifier := 0\<rparr>) = rect (ball sample_game)
   \<and> \<not> 7000 - start_time (ball sample_rally) < duration (ball sample_rally)
   \<and> Ball_update sample_settings 7000 sample_env_late (1 / 60) sample_rally
       = Some (sample_rally\<lparr>score := [''player'' \<mapsto> 0, ''opponent'' \<mapsto> 1],
                              ball := sample_served\<rparr>)
   \<and> speed_modifier sample_served = 1 \<and> start_time sample_served = ticks sample_env_late"
proof -
  have t: "5500 - start_time (ball sample_game) < duration (ball sample_game)"
    "\<not> 7000 - start_time (ball sample_rally) < duration (ball sample_rally)"
    by (simp_all add: sample_ball sample_rally_facts)
  from serve_delay [of 5500 "ball sample_game" sample_settings sample_env sample_env "1 / 60"
      sample_game]
    sample_ball_update
  have a: "speed_modifier (ball (sample_game\<lparr>ball := (ball sample_game)\<lparr>speed_modifier := 0\<rparr>\<rparr>))
            = (if 5500 - start_time (ball sample_game) < duration (ball sample_game) then 0 else 1)"
    by blast
  from serve_delay [of 7000 "ball sample_rally" sample_settings sample_env_late sample_env_late
      "1 / 60" sample_rally]
    sample_rally_ball_update
  have b: "speed_modifier (ball (sample_rally\<lparr>score := [''player'' \<mapsto> 0, ''opponent'' \<mapsto> 1],
                              ball := sample_served\<rparr>))
            = (if 7000 - start_time (ball sample_rally) < duration (ball sample_rally) then 0 else 1)
          \<and> (start_time (ball (sample_rally\<lparr>score := [''player'' \<mapsto> 0, ''opponent'' \<mapsto> 1],
                              ball := sample_served\<rparr>)) = start_time (ball sample_rally)
              \<or> start_time (ball (sample_rally\<lparr>score := [''player'' \<mapsto> 0, ''opponent'' \<mapsto> 1],
                              ball := sample_served\<rparr>)) = ticks sample_env_late)"
    by blast
  have s: "start_time sample_served \<noteq> start_time (ball sample_rally)"
    by (simp add: sample_served_def sample_rally_facts)
  from a b t s sample_ball_update sample_rally_ball_update show ?thesis by simp
qed

text \<open>
  C3. When the ball's rectangle has reached the right or the left edge of the window in
  \<open>wall_collision\<close>, the score is updated for the player if the rectangle's x is left of the
  middle of the window and for the opponent otherwise, and then the ball is reset: its
  centre is the middle of the window, the horizontal direction is 1 or -1, the vertical
  direction has a magnitude between 0.7 and 0.8, and the serve starts at the current
  clock. The draws are those of the library, within their ranges.
\<close>

theorem exit_scores_and_resets:
  assumes "rect_right (rect (ball g)) \<ge> WINDOW_WIDTH cfg \<or> rect_left (rect (ball g)) \<le> 0"
    and "score g ''player'' = Some p" "score g ''opponent'' = Some q"
    and "valid_env env"
    and "side = (if real_of_int (rect_x (rect (ball g))) < real_of_int (WINDOW_WIDTH cfg) / 2
                 then ''player'' else ''opponent'')"
  shows "\<exists>g1 g'. update_score side (g\<lparr>ball := bounce_walls cfg (ball g)\<rparr>) = Some g1
           \<and> wall_collision cfg env g = Some g'
           \<and> g' = g1\<lparr>ball := Ball_reset cfg env (bounce_walls cfg (ball g))\<rparr>
           \<and> score g' = (if side = ''player'' then (score g)(''player'' \<mapsto> p + 1)
                          else (score g)(''opponent'' \<mapsto> q + 1))
           \<and> rect_centerx (rect (ball g')) = int_of_float (real_of_int (WINDOW_WIDTH cfg) / 2)
           \<and> rect_centery (rect (ball g')) = int_of_float (real_of_int (WINDOW_HEIGHT cfg) / 2)
           \<and> (fst (direction (ball g')) = 1 \<or> fst (direction (ball g')) = - 1)
           \<and> 0.7 \<le> \<bar>snd (direction (ball g'))\<bar> \<and> \<bar>snd (direction (ball g'))\<bar> \<le> 0.8
           \<and> start_time (ball g') = ticks env"
proof -
  have side: "side = scoring_side cfg (ball g)"
    using assms(5) by (simp add: scoring_side_def)
  from wall_collision_exit [OF assms(1-3), of env] side
  obtain g1 where g1: "update_score side (g\<lparr>ball := bounce_walls cfg (ball g)\<rparr>) = Some g1"
    and w: "wall_collision cfg env g = Some (g1\<lparr>ball := Ball_reset cfg env (bounce_walls cfg (ball g))\<rparr>)"
    by auto
  from update_score_counts [OF _ _ g1, of p q] assms(2,3)
  have sc: "score g1 = (if side = ''player'' then (score g)(''player'' \<mapsto> p + 1)
                          else (score g)(''opponent'' \<mapsto> q + 1))"
    by simp
  show ?thesis
    using g1 w sc Ball_reset_centre [of cfg env "bounce_walls cfg (ball g)"]
      Ball_reset_direction [OF assms(4), of cfg "bounce_walls cfg (ball g)"]
    by (simp add: Ball_reset_def)
qed

theorem exit_scores_and_resets_witness:
  "rect_right (rect (ball sample_exit_right)) \<ge> WINDOW_WIDTH sample_settings
   \<and> (\<exists>g'. wall_collision sample_settings sample_env sample_exit_right = Some g'
          \<and> score g' = [''player'' \<mapsto> 0, ''opponent'' \<mapsto> 1]
          \<and> rect_centerx (rect (ball g')) = 640 \<and> rect_centery (rect (ball g')) = 360
          \<and> start_time (ball g') = 5000)"
proof -
  have e: "rect_right (rect (ball sample_exit_right)) \<ge> WINDOW_WIDTH sample_settings"
    by (simp add: sample_exit_right_def rect_right_def sample_settings_def)
  have s: "score sample_exit_right ''player'' = Some 0" "score sample_exit_right ''opponent'' = Some 0"
    by (simp_all add: sample_exit_right_def sample_game_flags)
  have side: "''opponent'' = (if real_of_int (rect_x (rect (ball sample_exit_right)))
                  < real_of_int (WINDOW_WIDTH sample_settings) / 2 then ''player'' else ''opponent'')"
    by (simp add: sample_exit_right_def sample_settings_def)
  have sc: "(score sample_exit_right)(''opponent'' \<mapsto> 0 + 1) = [''player'' \<mapsto> 0, ''opponent'' \<mapsto> 1]"
    by (simp add: sample_exit_right_def sample_game_flags)
  have c: "int_of_float (real_of_int (WINDOW_WIDTH sample_settings) / 2) = 640"
    "int_of_float (real_of_int (WINDOW_HEIGHT sample_settings) / 2) = 360"
    "ticks sample_env = 5000"
    by (simp_all add: sample_settings_def int_of_float_def sample_env_def)
  from exit_scores_and_resets [OF disjI1 [OF e] s sample_env_valid side]
  obtain g' where "wall_collision sample_settings sample_env sample_exit_right = Some g'"
    "score g' = (score sample_exit_right)(''opponent'' \<mapsto> 0 + 1)"
    "rect_centerx (rect (ball g')) = int_of_float (real_of_int (WINDOW_WIDTH sample_settings) / 2)"
    "rect_centery (rect (ball g')) = int_of_float (real_of_int (WINDOW_HEIGHT sample_settings) / 2)"
    "start_time (ball g') = ticks sample_env"
    by auto
  with e sc c show ?thesis by auto
qed

text \<open>
  C2. With the ball at the left edge of the window and its centre left of the middle, the
  point goes to the player, not to the opponent: in the sample game the opponent's
  counter stays at 0 and the player's becomes 1.
\<close>

theorem left_exit_credits_opponent_counterexample:
  "rect_left (rect (ball sample_exit_left)) \<le> 0
   \<and> real_of_int (rect_centerx (rect (ball sample_exit_left)))
        < real_of_int (WINDOW_WIDTH sample_settings) / 2
   \<and> scoring_side sample_settings (ball sample_exit_left) = ''player''
   \<and> (\<exists>g'. wall_collision sample_settings sample_env sample_exit_left = Some g'
          \<and> score sample_exit_left = [''player'' \<mapsto> 0, ''opponent'' \<mapsto> 0]
          \<and> score g' = [''player'' \<mapsto> 1, ''opponent'' \<mapsto> 0])"
proof -
  have e: "rect_left (rect (ball sample_exit_left)) \<le> 0"
    by (simp add: sample_exit_left_def rect_left_def)
  have c: "real_of_int (rect_centerx (rect (ball sample_exit_left)))
        < real_of_int (WINDOW_WIDTH sample_settings) / 2"
    by (simp add: sample_exit_left_def rect_centerx_def half_def sample_settings_def)
  have side: "scoring_side sample_settings (ball sample_exit_left) = ''player''"
    by (simp add: scoring_side_def sample_exit_left_def sample_settings_def)
  have s: "score sample_exit_left = [''player'' \<mapsto> 0, ''opponent'' \<mapsto> 0]"
    by (simp add: sample_exit_left_def sample_game_flags)
  then have s2: "score sample_exit_left ''player'' = Some 0" "score sample_exit_left ''opponent'' = Some 0"
    by simp_all
  from wall_collision_exit [where g = sample_exit_left and cfg = sample_settings and env = sample_env, OF disjI2 [OF e] s2]
  obtain g1 where g1: "update_score ''player''
        (sample_exit_left\<lparr>ball := bounce_walls sample_settings (ball sample_exit_left)\<rparr>) = Some g1"
    and w: "wall_collision sample_settings sample_env sample_exit_left
       = Some (g1\<lparr>ball := Ball_reset sample_settings sample_env
                              (bounce_walls sample_settings (ball sample_exit_left))\<rparr>)"
    unfolding side by auto
  from update_score_counts [OF _ _ g1, of 0 0] s
  have "score g1 = [''player'' \<mapsto> 1, ''opponent'' \<mapsto> 0]"
    by (simp add: fun_upd_twist)
  with w e c side s show ?thesis by simp
qed

text \<open>
  C2, amended. Whenever the left edge of the ball's rectangle is at or beyond the left
  edge of the window (and the window has a positive width), \<open>wall_collision\<close> credits the
  player: the player's counter goes up by one and the opponent's counter stays. Only the
  position of the ball decides this.
\<close>

theorem left_exit_credits_player:
  assumes "rect_left (rect (ball g)) \<le> 0" and "0 < WINDOW_WIDTH cfg"
    and "score g ''player'' = Some p" "score g ''opponent'' = Some q"
  shows "scoring_side cfg (ball g) = ''player''
         \<and> (\<exists>g'. wall_collision cfg env g = Some g'
                \<and> score g' = (score g)(''player'' \<mapsto> p + 1))"
proof -
  from assms(1,2) have side: "scoring_side cfg (ball g) = ''player''"
    by (simp add: scoring_side_def rect_left_def)
  from wall_collision_exit [where g = g and cfg = cfg and env = env, OF disjI2 [OF assms(1)] assms(3,4)]
  obtain g1 where g1: "update_score ''player'' (g\<lparr>ball := bounce_walls cfg (ball g)\<rparr>) = Some g1"
    and w: "wall_collision cfg env g
       = Some (g1\<lparr>ball := Ball_reset cfg env (bounce_walls cfg (ball g))\<rparr>)"
    unfolding side by auto
  from update_score_counts [OF _ _ g1, of p q] assms(3,4)
  have "score g1 = (score g)(''player'' \<mapsto> p + 1)" by simp
  with w side show ?thesis by simp
qed

theorem left_exit_credits_player_witness:
  "rect_left (rect (ball sample_exit_left)) \<le> 0 \<and> 0 < WINDOW_WIDTH sample_settings
   \<and> scoring_side sample_settings (ball sample_exit_left) = ''player''
   \<and> (\<exists>g'. wall_collision sample_settings sample_env sample_exit_left = Some g'
          \<and> score g' = [''player'' \<mapsto> 1, ''opponent'' \<mapsto> 0])"
proof -
  have e: "rect_left (rect (ball sample_exit_left)) \<le> 0"
    by (simp add: sample_exit_left_def rect_left_def)
  have w: "0 < WINDOW_WIDTH sample_settings"
    by (simp add: sample_settings_def)
  have s: "score sample_exit_left = [''player'' \<mapsto> 0, ''opponent'' \<mapsto> 0]"
    by (simp add: sample_exit_left_def sample_game_flags)
  then have s2: "score sample_exit_left ''player'' = Some 0" "score sample_exit_left ''opponent'' = Some 0"
    by simp_all
  have u: "(score sample_exit_left)(''player'' \<mapsto> 0 + 1) = [''player'' \<mapsto> 1, ''opponent'' \<mapsto> 0]"
    by (simp add: s fun_upd_twist)
  from left_exit_credits_player [where env = sample_env, OF e w s2] e w u
  show ?thesis by simp
qed

section \<open>Collisions with a paddle\<close>

text \<open>
  C4. For a ball and a paddle whose rectangles have kept their sizes since the last
  frame, one collision resolution against one paddle does the following. On the
  horizontal axis, the bounce off the paddle's left side is taken exactly when the
  rectangles overlap, the ball's right edge is at or beyond the paddle's left edge, and
  the ball's previous right edge was at or left of the paddle's previous left edge; the
  bounce off the right side is the mirror image; the vertical axis does the same with
  top and bottom. A bounce that is taken puts the ball against that side and negates one
  component of the direction once, x on the horizontal axis and y on the vertical one;
  otherwise nothing changes. In every case the magnitudes of both components stay.
\<close>

theorem collide_reflects_once:
  assumes "rect_w (old_rect b) = rect_w (rect b)" "rect_h (old_rect b) = rect_h (rect b)"
    and "rect_w (old_rect s) = rect_w (rect s)" "rect_h (old_rect s) = rect_h (rect s)"
    and "0 \<le> rect_w (rect b)" "0 \<le> rect_h (rect b)"
    and "0 \<le> rect_w (rect s)" "0 \<le> rect_h (rect s)"
  shows "collide ''horizontal'' s b =
           (if colliderect (rect s) (rect b)
               \<and> rect_right (rect b) \<ge> rect_left (rect s)
               \<and> rect_right (old_rect b) \<le> rect_left (old_rect s)
            then b\<lparr>rect := set_right (rect b) (rect_left (rect s)),
                   direction := (- fst (direction b), snd (direction b))\<rparr>
            else if colliderect (rect s) (rect b)
               \<and> rect_left (rect b) \<le> rect_right (rect s)
               \<and> rect_left (old_rect b) \<ge> rect_right (old_rect s)
            then b\<lparr>rect := set_left (rect b) (rect_right (rect s)),
                   direction := (- fst (direction b), snd (direction b))\<rparr>
            else b)
         \<and> collide ''vertical'' s b =
           (if colliderect (rect s) (rect b)
               \<and> rect_bottom (rect b) \<ge> rect_top (rect s)
               \<and> rect_bottom (old_rect b) \<le> rect_top (old_rect s)
            then b\<lparr>rect := set_bottom (rect b) (rect_top (rect s)),
                   direction := (fst (direction b), - snd (direction b))\<rparr>
            else if colliderect (rect s) (rect b)
               \<and> rect_top (rect b) \<le> rect_bottom (rect s)
               \<and> rect_top (old_rect b) \<ge> rect_bottom (old_rect s)
            then b\<lparr>rect := set_top (rect b) (rect_bottom (rect s)),
                   direction := (fst (direction b), - snd (direction b))\<rparr>
            else b)
         \<and> \<bar>fst (direction (collide dir s b))\<bar> = \<bar>fst (direction b)\<bar>
         \<and> \<bar>snd (direction (collide dir s b))\<bar> = \<bar>snd (direction b)\<bar>"
  using collide_horizontal [OF assms(1,3,5,7)] collide_vertical [OF assms(2,4,6,8)]
    collide_magnitude [of dir s b]
  by (simp only: simp_thms)

theorem collide_reflects_once_witness:
  "colliderect (rect (player sample_game)) (rect sample_approach)
   \<and> rect_right (rect sample_approach) \<ge> rect_left (rect (player sample_game))
   \<and> rect_right (old_rect sample_approach) \<le> rect_left (old_rect (player sample_game))
   \<and> collide ''horizontal'' (player sample_game) sample_approach
       = sample_approach\<lparr>rect := \<lparr>rect_x = 1180, rect_y = 345, rect_w = 30, rect_h = 30\<rparr>,
                          direction := (- 1, 3 / 4)\<rparr>
   \<and> collide ''vertical'' (player sample_game) sample_approach = sample_approach"
proof -
  have c: "colliderect (rect (player sample_game)) (rect sample_approach)"
    by (simp add: sample_player sample_approach_facts colliderect_def)
  have l: "rect_right (rect sample_approach) \<ge> rect_left (rect (player sample_game))"
    "rect_right (old_rect sample_approach) \<le> rect_left (old_rect (player sample_game))"
    by (simp_all add: sample_player sample_approach_facts rect_defs)
  have v: "\<not> rect_bottom (old_rect sample_approach) \<le> rect_top (old_rect (player sample_game))"
    "\<not> rect_top (old_rect sample_approach) \<ge> rect_bottom (old_rect (player sample_game))"
    by (simp_all add: sample_player sample_approach_facts rect_defs)
  have r: "set_right (rect sample_approach) (rect_left (rect (player sample_game)))
             = \<lparr>rect_x = 1180, rect_y = 345, rect_w = 30, rect_h = 30\<rparr>"
    "(- fst (direction sample_approach), snd (direction sample_approach)) = (- 1, 3 / 4)"
    by (simp_all add: sample_player sample_approach_facts rect_defs)
  have sz: "rect_w (old_rect sample_approach) = rect_w (rect sample_approach)"
    "rect_h (old_rect sample_approach) = rect_h (rect sample_approach)"
    "rect_w (old_rect (player sample_game)) = rect_w (rect (player sample_game))"
    "rect_h (old_rect (player sample_game)) = rect_h (rect (player sample_game))"
    "0 \<le> rect_w (rect sample_approach)" "0 \<le> rect_h (rect sample_approach)"
    "0 \<le> rect_w (rect (player sample_game))" "0 \<le> rect_h (rect (player sample_game))"
    by (simp_all add: sample_player sample_approach_facts)
  from collide_reflects_once [OF sz, of "''horizontal''"] c l v r
  show ?thesis by simp
qed

section \<open>The ball stays in the window\<close>

text \<open>
  C10. A ball smaller than the window is not enough. In a window 1281 wide and 720 high,
  a ball 1279 wide and 30 high is centred with its left edge at 2; the update finds its
  right edge at the window's width, scores and centres it again, and afterwards the right
  edge is at 1281, the width of the window, not below it.
\<close>

theorem ball_smaller_counterexample:
  "rect_w (rect (ball sample_wide_game)) < WINDOW_WIDTH sample_wide_settings
   \<and> rect_h (rect (ball sample_wide_game)) < WINDOW_HEIGHT sample_wide_settings
   \<and> 0 < rect_left (rect (ball sample_wide_game))
   \<and> (\<exists>g'. Ball_update sample_wide_settings 5500 sample_env (1 / 60) sample_wide_game = Some g'
          \<and> rect_right (rect (ball g')) = WINDOW_WIDTH sample_wide_settings)"
proof -
  have s: "rect_w (rect (ball sample_wide_game)) < WINDOW_WIDTH sample_wide_settings"
    "rect_h (rect (ball sample_wide_game)) < WINDOW_HEIGHT sample_wide_settings"
    "0 < rect_left (rect (ball sample_wide_game))"
    by (simp_all add: sample_wide_facts rect_defs sample_wide_settings_def sample_settings_def)
  have r: "rect_right (rect (ball (sample_wide_game\<lparr>score := [''opponent'' \<mapsto> 0, ''player'' \<mapsto> 1]\<rparr>)))
             = WINDOW_WIDTH sample_wide_settings"
    by (simp add: sample_wide_facts rect_defs sample_wide_settings_def sample_settings_def)
  from s r sample_wide_update show ?thesis by blast
qed

text \<open>
  C10, amended. If the ball is less tall than the window and at least three pixels narrower,
  then every update of the ball returns (the score dictionary having both keys), and
  afterwards the ball's rectangle is within the window: top at least 0, bottom at most
  the height, left above 0, right below the width.
\<close>

theorem ball_stays_in_window:
  assumes "0 \<le> rect_w (rect (ball g))" "rect_w (rect (ball g)) + 3 \<le> WINDOW_WIDTH cfg"
    and "0 \<le> rect_h (rect (ball g))" "rect_h (rect (ball g)) < WINDOW_HEIGHT cfg"
    and "score g ''player'' = Some p" "score g ''opponent'' = Some q"
  shows "\<exists>g'. Ball_update cfg now env dt g = Some g'
           \<and> 0 \<le> rect_top (rect (ball g'))
           \<and> rect_bottom (rect (ball g')) \<le> WINDOW_HEIGHT cfg
           \<and> 0 < rect_left (rect (ball g'))
           \<and> rect_right (rect (ball g')) < WINDOW_WIDTH cfg"
proof -
  let ?b = "Ball_move cfg [player g, opponent g] dt
              (Ball_timer now ((ball g)\<lparr>old_rect := rect (ball g)\<rparr>))"
  have sz: "rect_w (rect ?b) = rect_w (rect (ball g))" "rect_h (rect ?b) = rect_h (rect (ball g))"
    by (simp_all add: Ball_move_keeps Ball_timer_keeps)
  have "\<exists>g'. wall_collision cfg env (g\<lparr>ball := ?b\<rparr>) = Some g'
           \<and> 0 \<le> rect_top (rect (ball g'))
           \<and> rect_bottom (rect (ball g')) \<le> WINDOW_HEIGHT cfg
           \<and> 0 < rect_left (rect (ball g'))
           \<and> rect_right (rect (ball g')) < WINDOW_WIDTH cfg"
    by (rule wall_collision_inside [where p = p and q = q]) (simp_all add: sz assms)
  then show ?thesis by (simp only: Ball_update_unfold)
qed

theorem ball_stays_in_window_witness:
  "rect_w (rect (ball sample_rally)) + 3 \<le> WINDOW_WIDTH sample_settings
   \<and> rect_h (rect (ball sample_rally)) < WINDOW_HEIGHT sample_settings
   \<and> Ball_update sample_settings 7000 sample_env_late (1 / 60) sample_rally
       = Some (sample_rally\<lparr>score := [''player'' \<mapsto> 0, ''opponent'' \<mapsto> 1],
                              ball := sample_served\<rparr>)
   \<and> rect sample_served = \<lparr>rect_x = 625, rect_y = 345, rect_w = 30, rect_h = 30\<rparr>
   \<and> 0 \<le> rect_top (rect sample_served)
   \<and> rect_bottom (rect sample_served) \<le> WINDOW_HEIGHT sample_settings
   \<and> 0 < rect_left (rect sample_served)
   \<and> rect_right (rect sample_served) < WINDOW_WIDTH sample_settings"
proof -
  have h: "0 \<le> rect_w (rect (ball sample_rally))"
    "rect_w (rect (ball sample_rally)) + 3 \<le> WINDOW_WIDTH sample_settings"
    "0 \<le> rect_h (rect (ball sample_rally))"
    "rect_h (rect (ball sample_rally)) < WINDOW_HEIGHT sample_settings"
    "score sample_rally ''player'' = Some 0" "score sample_rally ''opponent'' = Some 0"
    by (simp_all add: sample_rally_facts sample_settings_def)
  from ball_stays_in_window [OF h, of 7000 sample_env_late "1 / 60"] sample_rally_ball_update
  have "0 \<le> rect_top (rect sample_served)
   \<and> rect_bottom (rect sample_served) \<le> WINDOW_HEIGHT sample_settings
   \<and> 0 < rect_left (rect sample_served)
   \<and> rect_right (rect sample_served) < WINDOW_WIDTH sample_settings"
    by auto
  with h(2,4) sample_rally_ball_update show ?thesis
    by (simp add: sample_served_def)
qed

section \<open>A paused pass of the game loop\<close>

lemma sample_overshoot_flags:
  "show_retry_modal sample_overshoot" "\<not> challenge_won sample_overshoot"
  "in_challenge sample_overshoot"
  "score sample_overshoot = [''player'' \<mapsto> 27, ''opponent'' \<mapsto> 7]"
  by (simp_all add: sample_overshoot_def sample_game_flags)

lemma sample_idle_events:
  "handle_events sample_settings (in_events sample_idle_input) g = Running g"
  by (simp add: sample_idle_input_def)

lemma sample_idle_clicks:
  "handle_clicks sample_settings (in_mouse_events sample_idle_input) g = Running g"
  by (simp add: sample_idle_input_def yes_rect_def no_rect_def collidepoint_def sample_settings_def)

lemma sample_paused_frame:
  "frame sample_settings sample_idle_input sample_overshoot =
     Some (Running sample_overshoot,
           [Poll_events, Fill_background, Draw_sprites, Display_score 27 7,
            Draw_retry_modal, Poll_mouse_events, Display_update])"
  by (simp add: frame_def sample_idle_events sample_idle_clicks sample_overshoot_flags finish_def)

text \<open>
  C8. A pass of the game loop during which the retry modal stays shown (shown when the
  pass begins and when it ends) skips the update of the sprites: the game after the pass
  is the game before it, so the paddles, the ball with its direction and serve timer, and
  the score are unchanged, while the pass polls the events, draws the background, the
  sprites, the score and the modal, and polls the mouse events. A pass in which the user
  answers the modal (Escape, Yes or No) ends the pause and is not covered.
\<close>

theorem paused_pass_changes_nothing:
  assumes "show_retry_modal g" and "frame cfg inp g = Some (out, acts)"
    and "out = Running g' \<or> out = Final g'" and "show_retry_modal g'"
  shows "g' = g \<and>
         (\<exists>p q. score g ''player'' = Some p \<and> score g ''opponent'' = Some q \<and>
            acts = [Poll_events, Fill_background, Draw_sprites, Display_score p q,
                    Draw_retry_modal, Poll_mouse_events,
                    if out = Running g then Display_update else Final_menu])"
proof -
  from assms(2,3) obtain g1 where he: "handle_events cfg (in_events inp) g = Running g1"
    by (cases "handle_events cfg (in_events inp) g")
       (auto simp: frame_def handle_events_not_Final)
  from handle_events_fresh [OF he] have "g1 = g"
  proof
    assume fr: "fresh g1"
    then have nm: "\<not> show_retry_modal g1" by (simp add: fresh_def)
    with assms(2) he obtain g2 where u: "all_sprites_update cfg inp g1 = Some g2"
      by (auto simp: frame_def split: bind_splits)
    from all_sprites_update_flags(3) [OF u] fr nm have nm2: "\<not> show_retry_modal g2"
      by (simp add: fresh_def)
    from assms(2) he nm u nm2 obtain a2 where "finish g2 a2 = (out, acts)"
      by (auto simp: frame_def Let_def split: bind_splits)
    from finish_state [OF this] assms(3) have "g' = g2" by auto
    with nm2 assms(4) show ?thesis by simp
  qed
  with he have he': "handle_events cfg (in_events inp) g = Running g" by simp
  from assms(1,2) he' obtain p q where p: "score g ''player'' = Some p"
    and q: "score g ''opponent'' = Some q"
    by (auto simp: frame_def split: bind_splits)
  let ?a = "[Poll_events, Fill_background, Draw_sprites, Display_score p q,
             Draw_retry_modal, Poll_mouse_events]"
  from assms(1-3) he' p q obtain g3 where
    hc: "handle_clicks cfg (in_mouse_events inp) g = Running g3"
    and f: "finish g3 ?a = (out, acts)"
    by (cases "handle_clicks cfg (in_mouse_events inp) g")
       (auto simp: frame_def handle_clicks_not_Final)
  from finish_state [OF f] assms(3) have g3: "g' = g3" by auto
  with handle_clicks_still_shown [OF hc] assms(4) have "g3 = g" by simp
  with g3 finish_state [OF f] p q show ?thesis by simp
qed

theorem paused_pass_changes_nothing_witness:
  "show_retry_modal sample_overshoot
   \<and> frame sample_settings sample_idle_input sample_overshoot =
       Some (Running sample_overshoot,
             [Poll_events, Fill_background, Draw_sprites, Display_score 27 7,
              Draw_retry_modal, Poll_mouse_events, Display_update])
   \<and> score sample_overshoot ''player'' = Some 27 \<and> score sample_overshoot ''opponent'' = Some 7"
  using paused_pass_changes_nothing [OF sample_overshoot_flags(1) sample_paused_frame disjI1 [OF refl]
      sample_overshoot_flags(1)]
    sample_overshoot_flags(1) sample_paused_frame
  by (simp add: sample_overshoot_flags)

section \<open>After the challenge is won\<close>

text \<open>
  C7. Once the won flag is true the round ends at once and no further change of the score
  is processed. Starting from a game that is not won, whenever the loop goes on to
  another pass the flag is still false, so every pass starts out not won. A pass at
  whose end the flag is true has updated the sprites, shows the score 26 to 7, ends in
  the final menu and not in another pass, and is the last: whatever input follows, the
  result of the loop is the outcome of that pass, with both counters and the flags as
  the win left them. The loop is the only caller of \<open>update_score\<close>, which does not
  test the flag itself.
\<close>

theorem win_ends_the_round:
  assumes "\<not> challenge_won g"
  shows "(run_frames cfg inps g = Some (Running g') \<longrightarrow> \<not> challenge_won g')
         \<and> (frame cfg inp g = Some (out, acts) \<and> challenge_won (outcome_game out) \<longrightarrow>
              out = Final (outcome_game out)
              \<and> in_challenge (outcome_game out)
              \<and> score (outcome_game out) ''player'' = Some TARGET_PLAYER
              \<and> score (outcome_game out) ''opponent'' = Some TARGET_OPPONENT
              \<and> acts = [Poll_events, Fill_background, Update_sprites, Draw_sprites,
                         Display_score TARGET_PLAYER TARGET_OPPONENT, Final_menu]
              \<and> run_frames cfg (inp # rest) g = Some out)"
proof -
  have inv: "run_frames cfg inps g = Some (Running g') \<Longrightarrow> \<not> challenge_won g'"
    using assms
  proof (induction inps arbitrary: g)
    case Nil
    then show ?case by simp
  next
    case (Cons i inps)
    from Cons.prems(1) obtain g1 a where f: "frame cfg i g = Some (Running g1, a)"
      and r: "run_frames cfg inps g1 = Some (Running g')"
      by (auto split: option.splits outcome.splits)
    from frame_not_won [OF Cons.prems(2) f] have "\<not> challenge_won g1" .
    from Cons.IH [OF r this] show ?case .
  qed
  have win: "out = Final (outcome_game out)
              \<and> in_challenge (outcome_game out)
              \<and> score (outcome_game out) ''player'' = Some TARGET_PLAYER
              \<and> score (outcome_game out) ''opponent'' = Some TARGET_OPPONENT
              \<and> acts = [Poll_events, Fill_background, Update_sprites, Draw_sprites,
                         Display_score TARGET_PLAYER TARGET_OPPONENT, Final_menu]
              \<and> run_frames cfg (inp # rest) g = Some out"
    if "frame cfg inp g = Some (out, acts)" "challenge_won (outcome_game out)"
  proof -
    from winning_pass [OF assms that] have w: "out = Final (outcome_game out)"
      and rest: "in_challenge (outcome_game out)"
        "score (outcome_game out) ''player'' = Some TARGET_PLAYER"
        "score (outcome_game out) ''opponent'' = Some TARGET_OPPONENT"
        "acts = [Poll_events, Fill_background, Update_sprites, Draw_sprites,
                 Display_score TARGET_PLAYER TARGET_OPPONENT, Final_menu]"
      by simp_all
    from w that(1) have "run_frames cfg (inp # rest) g = Some out"
      by (cases out) simp_all
    with w rest show ?thesis by simp
  qed
  from inv win show ?thesis by blast
qed

theorem win_ends_the_round_witness:
  "\<not> challenge_won sample_match_point
   \<and> frame sample_settings sample_play_input sample_match_point =
       Some (Final sample_after_win,
             [Poll_events, Fill_background, Update_sprites, Draw_sprites, Display_score 26 7,
              Final_menu])
   \<and> challenge_won sample_after_win
   \<and> score sample_after_win ''player'' = Some 26 \<and> score sample_after_win ''opponent'' = Some 7
   \<and> run_frames sample_settings [sample_play_input, sample_idle_input, sample_play_input]
         sample_match_point = Some (Final sample_after_win)"
proof -
  have w: "challenge_won (outcome_game (Final sample_after_win))"
    by (simp add: sample_after_win_def)
  from win_ends_the_round [OF sample_match_point_facts(3),
      where cfg = sample_settings and inp = sample_play_input
        and out = "Final sample_after_win"
        and rest = "[sample_idle_input, sample_play_input]"]
    sample_win_frame w sample_match_point_facts(3)
  show ?thesis
    unfolding TARGET_PLAYER_def TARGET_OPPONENT_def
    by simp
qed

end
